theory Spec2Isabelle
  imports Main "HOL-Library.Word" "HOL-Library.List_Lexorder" "HOL-Library.Char_ord"
begin

section \<open>JavaScript values and the platform functions the front end calls\<close>

text \<open>
  The record store of this repository is the React component \<^verbatim>\<open>App\<close> of
  \<^verbatim>\<open>src/frontend/web/src/App.tsx\<close>: \<^verbatim>\<open>loadAnalysisData\<close> (list),
  \<^verbatim>\<open>uploadXrayImage\<close> (create and index registration) and \<^verbatim>\<open>processWithFHE\<close>
  (advance). Everything it reads back from the ledger is the result of \<^verbatim>\<open>JSON.parse\<close>,
  typed \<^verbatim>\<open>any\<close>, so the model works on JavaScript values.

  Numbers. \<open>JNum w\<close> is the integer \<open>sint w\<close>, from \<open>-2\<^sup>5\<^sup>3\<close> to \<open>2\<^sup>5\<^sup>3 - 1\<close>: on these
  integers the arithmetic and the printing of doubles are exact. \<open>JNegZero\<close>,
  \<open>JInfinity\<close> and \<open>JNegInfinity\<close> are \<^verbatim>\<open>-0\<close> and the two infinities, which
  \<^verbatim>\<open>JSON.parse\<close> returns for \<^verbatim>\<open>-0\<close> and for numerals beyond the range of a double such as
  \<^verbatim>\<open>1e400\<close>. The other finite numbers (with a fraction, or of a greater magnitude) have no
  counterpart in the model. An object is the list of its own properties in insertion
  order. The strings of the ledger are lists of 8-bit characters.
\<close>

datatype jsval =
    JUndefined
  | JNull
  | JBool bool
  | JNum "54 word"
  | JNegZero
  | JInfinity
  | JNegInfinity
  | JStr string
  | JArr "jsval list"
  | JObj "(string \<times> jsval) list"

text \<open>What the code can throw or report.\<close>

datatype error =
    SyntaxError      \<comment> \<open>\<^verbatim>\<open>JSON.parse\<close> or \<^verbatim>\<open>ethers.toUtf8String\<close> rejects the bytes\<close>
  | TypeError        \<comment> \<open>property access on \<^verbatim>\<open>null\<close>, a missing method, a value that is not iterable,
                         an object that cannot be converted to a string\<close>
  | InvalidCharacterError  \<comment> \<open>\<^verbatim>\<open>btoa\<close> on a character above U+00FF\<close>
  | ContractError    \<comment> \<open>\<^verbatim>\<open>new Error("Failed to get contract with signer")\<close>\<close>
  | NotFound         \<comment> \<open>\<^verbatim>\<open>new Error("Analysis not found")\<close>\<close>
  | LedgerError      \<comment> \<open>\<^verbatim>\<open>contract.setData\<close> rejects\<close>

text \<open>
  What a handler leaves in \<^verbatim>\<open>transactionStatus\<close>: nothing when it returned after the
  \<^verbatim>\<open>alert\<close>, the \<^verbatim>\<open>"error"\<close> toast of its \<^verbatim>\<open>catch\<close> block, or the \<^verbatim>\<open>"success"\<close> toast.
\<close>

datatype outcome = NoProvider | Failure error | Success

text \<open>
  The bytes of a ledger entry, as far as the code can tell them apart: of length 0, not
  empty but rejected by \<^verbatim>\<open>JSON.parse(ethers.toUtf8String(...))\<close>, or a UTF-8 JSON text.
  \<^verbatim>\<open>Utf8Json v\<close> stands for every text that \<^verbatim>\<open>JSON.parse\<close> maps to the value \<^verbatim>\<open>v\<close>.
\<close>

datatype bytes = NoBytes | Garbage | Utf8Json jsval

fun JSON_parse :: "bytes \<Rightarrow> error + jsval" where
  "JSON_parse NoBytes = Inl SyntaxError"
| "JSON_parse Garbage = Inl SyntaxError"
| "JSON_parse (Utf8Json v) = Inr v"

text \<open>
  The value that \<^verbatim>\<open>JSON.parse\<close> reads back from the text that \<^verbatim>\<open>JSON.stringify\<close> writes
  for a value. The text has no numeral for an infinity, which is written \<^verbatim>\<open>null\<close>, and
  none for \<^verbatim>\<open>-0\<close>, which is written \<^verbatim>\<open>0\<close>; \<^verbatim>\<open>undefined\<close> is written \<^verbatim>\<open>null\<close> as the
  element of an array, and a property whose value is \<^verbatim>\<open>undefined\<close> is left out.
\<close>

fun undefined_to_null :: "jsval \<Rightarrow> jsval" where
  "undefined_to_null JUndefined = JNull"
| "undefined_to_null v = v"

primrec json_norm :: "jsval \<Rightarrow> jsval" where
  "json_norm JUndefined = JUndefined"
| "json_norm JNull = JNull"
| "json_norm (JBool b) = JBool b"
| "json_norm (JNum n) = JNum n"
| "json_norm JNegZero = JNum 0"
| "json_norm JInfinity = JNull"
| "json_norm JNegInfinity = JNull"
| "json_norm (JStr s) = JStr s"
| "json_norm (JArr xs) = JArr (map undefined_to_null (map json_norm xs))"
| "json_norm (JObj ps) =
     JObj (filter (\<lambda>p. snd p \<noteq> JUndefined) (map (map_prod id json_norm) ps))"

text \<open>
  \<^verbatim>\<open>ethers.toUtf8Bytes(JSON.stringify(v))\<close>. \<^verbatim>\<open>JSON.stringify(undefined)\<close> is not a string
  but \<^verbatim>\<open>undefined\<close>, which \<^verbatim>\<open>toUtf8Bytes\<close> rejects.
\<close>

definition JSON_stringify :: "jsval \<Rightarrow> error + bytes" where
  "JSON_stringify v = (if v = JUndefined then Inl TypeError else Inr (Utf8Json (json_norm v)))"

text \<open>A value without \<^verbatim>\<open>undefined\<close> in it: what \<^verbatim>\<open>JSON.parse\<close> can return.\<close>

primrec isJSON :: "jsval \<Rightarrow> bool" where
  "isJSON JUndefined = False"
| "isJSON JNull = True"
| "isJSON (JBool b) = True"
| "isJSON (JNum n) = True"
| "isJSON JNegZero = True"
| "isJSON JInfinity = True"
| "isJSON JNegInfinity = True"
| "isJSON (JStr s) = True"
| "isJSON (JArr xs) = list_all id (map isJSON xs)"
| "isJSON (JObj ps) = list_all snd (map (map_prod id isJSON) ps)"

text \<open>Number::toString of an integer below \<open>10\<^sup>2\<^sup>1\<close> in magnitude: its decimal numeral.\<close>

definition digit :: "nat \<Rightarrow> char" where
  "digit n = ''0123456789'' ! n"

fun string_of_nat :: "nat \<Rightarrow> string" where
  "string_of_nat n =
     (if n < 10 then [digit n]
      else string_of_nat (n div 10) @ [digit (n mod 10)])"

declare string_of_nat.simps [simp del]

definition number_toString :: "int \<Rightarrow> string" where
  "number_toString n = (if n < 0 then ''-'' else []) @ string_of_nat (nat \<bar>n\<bar>)"

fun join_comma :: "string list \<Rightarrow> string" where
  "join_comma [] = []"
| "join_comma [s] = s"
| "join_comma (s # t # ts) = s @ CHR '','' # join_comma (t # ts)"

text \<open>The results of a list of conversions, or the first error among them.\<close>

fun sequence :: "(error + 'a) list \<Rightarrow> error + 'a list" where
  "sequence [] = Inr []"
| "sequence (Inl e # rs) = Inl e"
| "sequence (Inr x # rs) = (case sequence rs of Inl e \<Rightarrow> Inl e | Inr xs \<Rightarrow> Inr (x # xs))"

text \<open>
  The string a template literal \<^verbatim>\<open>`analysis_${key}`\<close> inserts for a value (ToString).
  An array is joined with commas, \<^verbatim>\<open>null\<close> and \<^verbatim>\<open>undefined\<close> elements giving the empty
  string. An object is converted by its \<^verbatim>\<open>toString\<close> method: the inherited one gives
  \<^verbatim>\<open>[object Object]\<close>; an own property \<^verbatim>\<open>toString\<close>, which after \<^verbatim>\<open>JSON.parse\<close> is never a
  function, hides it, \<^verbatim>\<open>valueOf\<close> returns no primitive value, and the conversion throws a
  \<^verbatim>\<open>TypeError\<close>.
\<close>

fun toString :: "jsval \<Rightarrow> error + string" where
  "toString JUndefined = Inr ''undefined''"
| "toString JNull = Inr ''null''"
| "toString (JBool b) = Inr (if b then ''true'' else ''false'')"
| "toString (JNum w) = Inr (number_toString (sint w))"
| "toString JNegZero = Inr ''0''"
| "toString JInfinity = Inr ''Infinity''"
| "toString JNegInfinity = Inr ''-Infinity''"
| "toString (JStr s) = Inr s"
| "toString (JArr xs) =
     (case sequence (map (\<lambda>x. if x = JUndefined \<or> x = JNull then Inr [] else toString x) xs) of
        Inl e \<Rightarrow> Inl e
      | Inr ss \<Rightarrow> Inr (join_comma ss))"
| "toString (JObj ps) =
     (if map_of ps ''toString'' = None then Inr ''[object Object]'' else Inl TypeError)"

fun truthy :: "jsval \<Rightarrow> bool" where
  "truthy JUndefined = False"
| "truthy JNull = False"
| "truthy (JBool b) = b"
| "truthy (JNum n) = (n \<noteq> 0)"
| "truthy JNegZero = False"
| "truthy JInfinity = True"
| "truthy JNegInfinity = True"
| "truthy (JStr s) = (s \<noteq> [])"
| "truthy (JArr xs) = True"
| "truthy (JObj ps) = True"

definition or_js :: "jsval \<Rightarrow> jsval \<Rightarrow> jsval" where
  \<comment> \<open>\<^verbatim>\<open>a || b\<close>\<close>
  "or_js a b = (if truthy a then a else b)"

text \<open>Reading a property of \<^verbatim>\<open>null\<close> or \<^verbatim>\<open>undefined\<close> throws a \<^verbatim>\<open>TypeError\<close>.\<close>

definition nullish :: "jsval \<Rightarrow> bool" where
  "nullish v = (v = JNull \<or> v = JUndefined)"

text \<open>
  Reading a property \<^verbatim>\<open>v.name\<close> of a value that is neither \<^verbatim>\<open>null\<close> nor
  \<^verbatim>\<open>undefined\<close>. The code reads \<^verbatim>\<open>image\<close>, \<^verbatim>\<open>densityMap\<close>, \<^verbatim>\<open>structure\<close>,
  \<^verbatim>\<open>timestamp\<close>, \<^verbatim>\<open>owner\<close> and \<^verbatim>\<open>status\<close> only, none of which a string, an array, a
  number or a boolean has.
\<close>

fun getProp :: "jsval \<Rightarrow> string \<Rightarrow> jsval" where
  "getProp (JObj ps) name = (case map_of ps name of None \<Rightarrow> JUndefined | Some v \<Rightarrow> v)"
| "getProp v name = JUndefined"

text \<open>Assigning a property: an existing one keeps its place, a new one goes last.\<close>

fun setProp :: "string \<Rightarrow> jsval \<Rightarrow> (string \<times> jsval) list \<Rightarrow> (string \<times> jsval) list" where
  "setProp name v [] = [(name, v)]"
| "setProp name v (p # ps) = (if fst p = name then (name, v) # ps else p # setProp name v ps)"

fun indexed :: "nat \<Rightarrow> jsval list \<Rightarrow> (string \<times> jsval) list" where
  "indexed i [] = []"
| "indexed i (x # xs) = (string_of_nat i, x) # indexed (Suc i) xs"

text \<open>
  The own enumerable properties that an object spread \<^verbatim>\<open>{...v}\<close> copies: those of an
  object, the elements of an array and the characters of a string under their indices,
  nothing for the other values.
\<close>

fun spread :: "jsval \<Rightarrow> (string \<times> jsval) list" where
  "spread (JObj ps) = ps"
| "spread (JArr xs) = indexed 0 xs"
| "spread (JStr s) = indexed 0 (map (\<lambda>c. JStr [c]) s)"
| "spread v = []"


text \<open>\<^verbatim>\<open>keys.push(x)\<close>: only an array has the method.\<close>

fun push :: "jsval \<Rightarrow> jsval \<Rightarrow> error + jsval" where
  "push (JArr xs) x = Inr (JArr (xs @ [x]))"
| "push v x = Inl TypeError"

definition toLowerChar :: "char \<Rightarrow> char" where
  "toLowerChar c =
     (let n = (of_char c :: nat) in if 65 \<le> n \<and> n \<le> 90 then char_of (n + 32) else c)"

definition toLowerCase :: "string \<Rightarrow> string" where
  "toLowerCase s = map toLowerChar s"

text \<open>
  The operands of \<^verbatim>\<open>b.timestamp - a.timestamp\<close>: \<open>toNumber v\<close> is the integer that ToNumber
  gives for \<open>v\<close> where it gives a finite one. \<open>None\<close> stands for the rest: \<^verbatim>\<open>NaN\<close>
  (\<^verbatim>\<open>undefined\<close>, an object), an infinity, and the coercion of a string or an array through
  the string syntax of numbers, which the model does not compute.
\<close>

fun toNumber :: "jsval \<Rightarrow> int option" where
  "toNumber (JNum w) = Some (sint w)"
| "toNumber JNegZero = Some 0"
| "toNumber JNull = Some 0"
| "toNumber (JBool b) = Some (if b then 1 else 0)"
| "toNumber v = None"

section \<open>The text that the user types, and its encryption\<close>

text \<open>
  The fields of the upload form hold what the user types: strings of UTF-16 code units,
  of any range. \<open>units\<close> embeds a string of 8-bit characters.
\<close>

type_synonym ustring = "nat list"

definition units :: "string \<Rightarrow> ustring" where
  "units s = map of_char s"

record form =
  imageName :: ustring
  description :: ustring

definition hexdigit :: "nat \<Rightarrow> nat" where
  "hexdigit d = (if d < 10 then 48 + d else 87 + d)"

definition unicodeEscape :: "nat \<Rightarrow> ustring" where
  \<comment> \<open>a backslash, \<^verbatim>\<open>u\<close> and four lower-case hexadecimal digits\<close>
  "unicodeEscape c =
     [92, 117, hexdigit (c div 4096 mod 16), hexdigit (c div 256 mod 16),
      hexdigit (c div 16 mod 16), hexdigit (c mod 16)]"

definition isHighSurrogate :: "nat \<Rightarrow> bool" where
  "isHighSurrogate c = (55296 \<le> c \<and> c \<le> 56319)"

definition isLowSurrogate :: "nat \<Rightarrow> bool" where
  "isLowSurrogate c = (56320 \<le> c \<and> c \<le> 57343)"

text \<open>
  QuoteJSONString on one code point that is a single code unit: the two-character escapes,
  the \<^verbatim>\<open>\u\<close> escape for the other control characters and for a surrogate that has no
  partner, the unit itself otherwise.
\<close>

definition quoteUnit :: "nat \<Rightarrow> ustring" where
  "quoteUnit c =
     (if c = 8 then [92, 98]
      else if c = 9 then [92, 116]
      else if c = 10 then [92, 110]
      else if c = 12 then [92, 102]
      else if c = 13 then [92, 114]
      else if c = 34 then [92, 34]
      else if c = 92 then [92, 92]
      else if c < 32 \<or> isHighSurrogate c \<or> isLowSurrogate c then unicodeEscape c
      else [c])"

fun quoteUnits :: "ustring \<Rightarrow> ustring" where
  "quoteUnits [] = []"
| "quoteUnits [c] = quoteUnit c"
| "quoteUnits (c # d # cs) =
     (if isHighSurrogate c \<and> isLowSurrogate d then c # d # quoteUnits cs
      else quoteUnit c @ quoteUnits (d # cs))"

text \<open>
  \<^verbatim>\<open>JSON.stringify(newAnalysisData)\<close>: the state is initialised with the two properties in
  this order (lines 34 to 37) and \<^verbatim>\<open>handleChange\<close> assigns to them only.
\<close>

definition form_json :: "form \<Rightarrow> ustring" where
  "form_json f =
     [123, 34] @ units ''imageName'' @ [34, 58, 34] @ quoteUnits (imageName f) @ [34, 44, 34] @
     units ''description'' @ [34, 58, 34] @ quoteUnits (description f) @ [34, 125]"

definition b64char :: "nat \<Rightarrow> char" where
  "b64char n = ''ABCDEFGHIJKLMNOPQRSTUVWXYZabcdefghijklmnopqrstuvwxyz0123456789+/'' ! n"

fun base64 :: "nat list \<Rightarrow> string" where
  "base64 [] = []"
| "base64 [a] = [b64char (a div 4), b64char (a mod 4 * 16), CHR ''='', CHR ''='']"
| "base64 [a, b] =
     [b64char (a div 4), b64char (a mod 4 * 16 + b div 16), b64char (b mod 16 * 4), CHR ''='']"
| "base64 (a # b # c # rest) =
     b64char (a div 4) # b64char (a mod 4 * 16 + b div 16) #
     b64char (b mod 16 * 4 + c div 64) # b64char (c mod 64) # base64 rest"

text \<open>\<^verbatim>\<open>btoa\<close>: Base64 of a string of code units up to 255; it throws on any other string.\<close>

definition btoa :: "ustring \<Rightarrow> error + string" where
  "btoa s = (if list_ex (\<lambda>c. 255 < c) s then Inl InvalidCharacterError else Inr (base64 s))"

text \<open>Line 145, the simulated encryption of the form.\<close>

definition encryptedImage_of :: "form \<Rightarrow> error + string" where
  "encryptedImage_of f =
     (case btoa (form_json f) of
        Inl e \<Rightarrow> Inl e
      | Inr b \<Rightarrow> Inr (''FHE-'' @ b))"

section \<open>The ledger\<close>

text \<open>
  Modelled from the spec: the module \<^verbatim>\<open>./contract\<close> and the contract behind
  \<^verbatim>\<open>getData\<close> and \<^verbatim>\<open>setData\<close> are not among the sources. Section 6 of the specification
  gives \<^verbatim>\<open>LedgerClient.get(key)\<close>, which returns empty bytes for an absent key and never
  throws for absence, and \<^verbatim>\<open>LedgerClient.set(key, value)\<close>, which fails with
  \<^verbatim>\<open>LedgerError\<close> when the transaction is rejected. Whether a transaction is accepted is
  an input of the model. The contract \<^verbatim>\<open>SecureXrayCrystallography.sol\<close> among the sources
  has none of \<^verbatim>\<open>isAvailable\<close>, \<^verbatim>\<open>getData\<close> and \<^verbatim>\<open>setData\<close>: the front end does not
  call it.
\<close>

type_synonym ledger = "string \<Rightarrow> bytes"

definition empty_ledger :: ledger where
  "empty_ledger = (\<lambda>key. NoBytes)"

definition getData :: "ledger \<Rightarrow> string \<Rightarrow> bytes" where
  "getData L key = L key"

definition setData :: "ledger \<Rightarrow> string \<Rightarrow> bytes \<Rightarrow> bool \<Rightarrow> error + ledger" where
  "setData L key val accepted = (if accepted then Inr (L(key := val)) else Inl LedgerError)"

section \<open>Records and the component's state\<close>

text \<open>
  \<^verbatim>\<open>interface CrystallographyData\<close>. The fields hold whatever \<^verbatim>\<open>JSON.parse\<close> returned:
  the interface's types are not checked at run time.
\<close>

record CrystallographyData =
  id' :: jsval
  encryptedImage :: jsval
  densityMap :: jsval
  molecularStructure :: jsval
  timestamp :: jsval
  owner :: jsval
  status :: jsval

text \<open>
  The state that the handlers close over: \<^verbatim>\<open>account\<close>, whether \<^verbatim>\<open>provider\<close> is set, and
  the upload form \<^verbatim>\<open>newAnalysisData\<close>.
\<close>

record app =
  account :: string
  provider :: bool
  newAnalysisData :: form

text \<open>
  What the environment decides during one call of a handler: whether
  \<^verbatim>\<open>getContractWithSigner()\<close> returns a contract, the two readings of \<^verbatim>\<open>Date.now()\<close>
  (milliseconds; line 152 for the id, line 158 for the timestamp), the characters
  \<^verbatim>\<open>Math.random().toString(36).substring(2, 9)\<close>, and whether the first and the second
  \<^verbatim>\<open>setData\<close> transaction of the call are accepted. A reading of the clock is a time
  value, an integer of at most 8.64e15: it prints as its decimal numeral, and its seconds
  are exact in \<open>JNum\<close>.
\<close>

record env =
  signerContract :: bool
  clock_id :: nat
  clock_ts :: nat
  suffix :: string
  accept1 :: bool
  accept2 :: bool

text \<open>
  The key of the entry of a record, the template literal \<^verbatim>\<open>`analysis_${key}`\<close> of lines
  98, 165, 243 and 259: \<open>entryName\<close> on the string that is inserted, \<open>entryKey\<close> on the
  value that is converted to that string, which can throw. The index is the entry
  \<^verbatim>\<open>"analysis_keys"\<close>.
\<close>

definition entryName :: "string \<Rightarrow> string" where
  "entryName s = ''analysis_'' @ s"

definition entryKey :: "jsval \<Rightarrow> error + string" where
  "entryKey key =
     (case toString key of
        Inl e \<Rightarrow> Inl e
      | Inr s \<Rightarrow> Inr (entryName s))"

section \<open>Listing: \<^verbatim>\<open>loadAnalysisData\<close>\<close>

text \<open>
  Lines 101 to 110, the decoding of one entry: \<^verbatim>\<open>JSON.parse\<close>, then the object literal
  pushed on the list. Reading a property of \<^verbatim>\<open>null\<close> throws; on every other value
  that \<^verbatim>\<open>JSON.parse\<close> returns a missing property reads as \<^verbatim>\<open>undefined\<close>.
\<close>

definition decode :: "jsval \<Rightarrow> bytes \<Rightarrow> error + CrystallographyData" where
  "decode key dataBytes =
     (case JSON_parse dataBytes of
        Inl e \<Rightarrow> Inl e
      | Inr analysisData \<Rightarrow>
          if nullish analysisData then Inl TypeError
          else Inr \<lparr> id' = key,
                     encryptedImage = getProp analysisData ''image'',
                     densityMap = getProp analysisData ''densityMap'',
                     molecularStructure = getProp analysisData ''structure'',
                     timestamp = getProp analysisData ''timestamp'',
                     owner = getProp analysisData ''owner'',
                     status = or_js (getProp analysisData ''status'') (JStr ''processing'') \<rparr>)"

text \<open>
  Lines 97 to 117, the body of the loop for one key. An entry of length 0 pushes nothing,
  and an entry that fails to decode is logged by the inner \<^verbatim>\<open>catch\<close> and pushes nothing
  either (\<open>Inr None\<close>). When the key cannot be converted to a string, the template
  literal of line 98 throws, the \<^verbatim>\<open>catch\<close> of line 115 builds its message from the same key
  and throws again, and the error leaves the loop (\<open>Inl\<close>).
\<close>

definition loadEntry :: "ledger \<Rightarrow> jsval \<Rightarrow> error + CrystallographyData option" where
  "loadEntry L key =
     (case entryKey key of
        Inl e \<Rightarrow> Inl e
      | Inr name \<Rightarrow>
          Inr (let dataBytes = getData L name in
               if dataBytes \<noteq> NoBytes then
                 (case decode key dataBytes of
                    Inr r \<Rightarrow> Some r
                  | Inl e \<Rightarrow> None)
               else None))"


text \<open>
  Lines 83 to 92 (and again 169 to 178): the index, \<^verbatim>\<open>[]\<close> when the entry is empty or
  does not parse.
\<close>

definition readKeys :: "ledger \<Rightarrow> jsval" where
  "readKeys L =
     (let keysBytes = getData L ''analysis_keys'' in
      if keysBytes \<noteq> NoBytes then
        (case JSON_parse keysBytes of Inr keys \<Rightarrow> keys | Inl e \<Rightarrow> JArr [])
      else JArr [])"

text \<open>
  Line 120, \<^verbatim>\<open>list.sort((a, b) => b.timestamp - a.timestamp)\<close>. When every timestamp
  converts to a finite number (\<open>sortable\<close>), the comparator is consistent and
  \<^verbatim>\<open>Array.prototype.sort\<close>, which is stable, is the stable sort by descending timestamp.
  The subtraction throws a \<^verbatim>\<open>TypeError\<close> on a timestamp that has no primitive value,
  which is one that has no string either (\<open>toString\<close>): with two records or more the
  comparator is called on every record, and the error leaves the sort. In the remaining
  cases the model does not compute the order: where a difference is \<^verbatim>\<open>NaN\<close> ECMAScript
  leaves it to the implementation. The list is then an arrangement of the same records that
  the environment chooses, given as a rank for each position (\<open>arrange\<close>): this admits
  every arrangement, among them the one of the stable sort where the comparator is
  consistent on values that \<open>toNumber\<close> does not cover.
\<close>

definition ts :: "CrystallographyData \<Rightarrow> int" where
  "ts r = (case toNumber (timestamp r) of Some n \<Rightarrow> n | None \<Rightarrow> 0)"








section \<open>Creation: \<^verbatim>\<open>uploadXrayImage\<close>\<close>

definition analysisId_of :: "env \<Rightarrow> string" where
  \<comment> \<open>line 152\<close>
  "analysisId_of e = string_of_nat (clock_id e) @ ''-'' @ suffix e"

text \<open>
  Lines 169 to 185, the registration of an id in the index (the specification's
  \<^verbatim>\<open>registerKey\<close>): read the list, \<^verbatim>\<open>push\<close>, write the list back.
\<close>

definition registerKey :: "ledger \<Rightarrow> string \<Rightarrow> bool \<Rightarrow> error + ledger" where
  "registerKey L analysisId accepted =
     (case push (readKeys L) (JStr analysisId) of
        Inl e \<Rightarrow> Inl e
      | Inr keys \<Rightarrow>
          (case JSON_stringify keys of
             Inl e \<Rightarrow> Inl e
           | Inr keysBytes \<Rightarrow> setData L ''analysis_keys'' keysBytes accepted))"

text \<open>Lines 154 to 161, the object literal \<^verbatim>\<open>analysisData\<close> that is stored for the record.\<close>

definition analysisData_of :: "string \<Rightarrow> app \<Rightarrow> env \<Rightarrow> jsval" where
  "analysisData_of cipher a e =
     JObj [(''image'', JStr cipher),
           (''densityMap'', JStr []),
           (''structure'', JStr []),
           (''timestamp'', JNum (of_nat (clock_ts e div 1000))),
           (''owner'', JStr (account a)),
           (''status'', JStr ''processing'')]"

text \<open>
  Lines 130 to 220. The encryption of line 145 comes first and can throw. The refresh of
  line 193 is \<^verbatim>\<open>loadAnalysisData\<close>, which writes nothing; every \<^verbatim>\<open>throw\<close> ends in the
  \<^verbatim>\<open>catch\<close> block of line 203, which writes nothing either, so that what was written
  before the \<^verbatim>\<open>throw\<close> stays.
\<close>

definition uploadXrayImage :: "app \<Rightarrow> env \<Rightarrow> ledger \<Rightarrow> outcome \<times> ledger" where
  "uploadXrayImage a e L =
     (if \<not> provider a then (NoProvider, L)
      else case encryptedImage_of (newAnalysisData a) of
        Inl err \<Rightarrow> (Failure err, L)
      | Inr cipher \<Rightarrow>
          if \<not> signerContract e then (Failure ContractError, L)
          else
            let analysisId = analysisId_of e;
                analysisData = analysisData_of cipher a e
            in (case JSON_stringify analysisData of
                  Inl err \<Rightarrow> (Failure err, L)
                | Inr dataBytes \<Rightarrow>
                    (case setData L (entryName analysisId) dataBytes (accept1 e) of
                       Inl err \<Rightarrow> (Failure err, L)
                     | Inr L1 \<Rightarrow>
                         (case registerKey L1 analysisId (accept2 e) of
                            Inl err \<Rightarrow> (Failure err, L1)
                          | Inr L2 \<Rightarrow> (Success, L2)))))"

section \<open>Processing: \<^verbatim>\<open>processWithFHE\<close> and the buttons that call it\<close>

text \<open>
  Lines 251 to 256, the object literal \<^verbatim>\<open>{...analysisData, densityMap: ..., structure: ...,
  status: "completed"}\<close>: the spread first, then the three assignments in their order.
\<close>

definition updatedData :: "jsval \<Rightarrow> jsval" where
  "updatedData analysisData =
     JObj (setProp ''status'' (JStr ''completed'')
            (setProp ''structure'' (JStr ''FHE-ENCRYPTED-STRUCTURE'')
              (setProp ''densityMap'' (JStr ''FHE-ENCRYPTED-DENSITY-MAP'')
                (spread analysisData))))"

text \<open>
  Lines 222 to 285. The three seconds of simulated computation cannot fail; the refresh
  of line 269 is \<^verbatim>\<open>loadAnalysisData\<close>, which catches its own errors. Every \<^verbatim>\<open>throw\<close>
  ends in the \<^verbatim>\<open>catch\<close> block of line 274, which writes nothing to the ledger.
\<close>

definition processWithFHE :: "app \<Rightarrow> env \<Rightarrow> ledger \<Rightarrow> jsval \<Rightarrow> outcome \<times> ledger" where
  "processWithFHE a e L analysisId =
     (if \<not> provider a then (NoProvider, L)
      else if \<not> signerContract e then (Failure ContractError, L)
      else case entryKey analysisId of
        Inl err \<Rightarrow> (Failure err, L)
      | Inr name \<Rightarrow>
          let dataBytes = getData L name
          in if dataBytes = NoBytes then (Failure NotFound, L)
             else (case JSON_parse dataBytes of
                     Inl err \<Rightarrow> (Failure err, L)
                   | Inr analysisData \<Rightarrow>
                       (case JSON_stringify (updatedData analysisData) of
                          Inl err \<Rightarrow> (Failure err, L)
                        | Inr updatedBytes \<Rightarrow>
                            (case setData L name updatedBytes (accept1 e) of
                               Inl err \<Rightarrow> (Failure err, L)
                             | Inr L' \<Rightarrow> (Success, L')))))"

text \<open>Lines 287 to 289. \<^verbatim>\<open>toLowerCase\<close> is a method of strings only.\<close>

definition isOwner :: "app \<Rightarrow> jsval \<Rightarrow> error + bool" where
  "isOwner a address =
     (case address of
        JStr s \<Rightarrow> Inr (toLowerCase (account a) = toLowerCase s)
      | _ \<Rightarrow> Inl TypeError)"

text \<open>
  Line 440 (the list) and lines 674 to 678 with 495 (the details dialog): the condition
  under which a button that calls \<^verbatim>\<open>processWithFHE\<close> is rendered for a displayed record.
\<close>

definition processButton :: "app \<Rightarrow> CrystallographyData \<Rightarrow> error + bool" where
  "processButton a d =
     (case isOwner a (owner d) of
        Inl e \<Rightarrow> Inl e
      | Inr b \<Rightarrow> Inr (b \<and> status d = JStr ''processing''))"

text \<open>
  Lines 441 to 449 and 496: a click on the button of the displayed record \<open>d\<close>. Without
  a rendered button there is nothing to click and no call is made (\<open>None\<close>).
\<close>

definition clickProcess ::
  "app \<Rightarrow> env \<Rightarrow> ledger \<Rightarrow> CrystallographyData \<Rightarrow> (outcome \<times> ledger) option" where
  "clickProcess a e L d =
     (if processButton a d = Inr True then Some (processWithFHE a e L (id' d)) else None)"

section \<open>Valid records\<close>

fun isString :: "jsval \<Rightarrow> bool" where
  "isString (JStr s) = True"
| "isString v = False"

fun isNumber :: "jsval \<Rightarrow> bool" where
  "isNumber (JNum n) = True"
| "isNumber v = False"

text \<open>
  A record whose fields have the types that \<^verbatim>\<open>interface CrystallographyData\<close> declares,
  the timestamp a finite number.
\<close>

definition valid :: "CrystallographyData \<Rightarrow> bool" where
  "valid r =
     (isString (id' r) \<and> isString (encryptedImage r) \<and> isString (densityMap r) \<and>
      isString (molecularStructure r) \<and> isNumber (timestamp r) \<and> isString (owner r) \<and>
      (status r = JStr ''processing'' \<or> status r = JStr ''completed'' \<or>
       status r = JStr ''failed''))"

text \<open>
  The record of the object literal of lines 154 to 161 under the id of line 152, given
  the encrypted image of line 145.
\<close>

definition created :: "string \<Rightarrow> app \<Rightarrow> env \<Rightarrow> CrystallographyData" where
  "created cipher a e =
     \<lparr> id' = JStr (analysisId_of e),
       encryptedImage = JStr cipher,
       densityMap = JStr [],
       molecularStructure = JStr [],
       timestamp = JNum (of_nat (clock_ts e div 1000)),
       owner = JStr (account a),
       status = JStr ''processing'' \<rparr>"

text \<open>The record after lines 251 to 256: the two placeholders and \<^verbatim>\<open>"completed"\<close>.\<close>

definition completed :: "CrystallographyData \<Rightarrow> CrystallographyData" where
  "completed r =
     r \<lparr> densityMap := JStr ''FHE-ENCRYPTED-DENSITY-MAP'',
         molecularStructure := JStr ''FHE-ENCRYPTED-STRUCTURE'',
         status := JStr ''completed'' \<rparr>"

section \<open>Example states\<close>

text \<open>
  Two accounts with a connected wallet and a form filled in with Latin letters; the same
  with the image name \<^verbatim>\<open>U+86CB U+767D\<close>. Calls in which the clock reads 1700000000123 ms,
  the random characters are \<^verbatim>\<open>zzzzzzz\<close> or \<^verbatim>\<open>aaaaaaa\<close>, and the transactions are
  accepted. An engine that leaves a list in place where the comparator is not consistent.
\<close>

definition form_latin :: form where
  "form_latin = \<lparr> imageName = units ''ProteinX_2023'', description = [] \<rparr>"

definition form_cjk :: form where
  "form_cjk = \<lparr> imageName = [34507, 30333], description = [] \<rparr>"

definition image_latin :: string where
  "image_latin = ''FHE-eyJpbWFnZU5hbWUiOiJQcm90ZWluWF8yMDIzIiwiZGVzY3JpcHRpb24iOiIifQ==''"

definition alice :: app where
  "alice = \<lparr> account = ''0xA11CE'', provider = True, newAnalysisData = form_latin \<rparr>"

definition bob :: app where
  "bob = \<lparr> account = ''0xB0B'', provider = True, newAnalysisData = form_latin \<rparr>"

definition alice_cjk :: app where
  "alice_cjk = alice \<lparr> newAnalysisData := form_cjk \<rparr>"

definition env_z :: env where
  "env_z = \<lparr> signerContract = True, clock_id = 1700000000123, clock_ts = 1700000000123,
             suffix = ''zzzzzzz'', accept1 = True, accept2 = True \<rparr>"

definition env_a :: env where
  "env_a = env_z \<lparr> suffix := ''aaaaaaa'' \<rparr>"

definition id_z :: string where
  "id_z = ''1700000000123-zzzzzzz''"

definition id_a :: string where
  "id_a = ''1700000000123-aaaaaaa''"


text \<open>Alice's two records as the listing shows them.\<close>

definition record_z :: CrystallographyData where
  "record_z = created image_latin alice env_z"

definition record_a :: CrystallographyData where
  "record_a = created image_latin alice env_a"

text \<open>The ledger after Alice's upload, and after her processing of the record.\<close>

definition ledger_z :: ledger where
  "ledger_z = snd (uploadXrayImage alice env_z empty_ledger)"

definition ledger_done :: ledger where
  "ledger_done = snd (processWithFHE alice env_z ledger_z (JStr id_z))"

text \<open>
  The ledger in which the entry of Alice's record carries the status \<^verbatim>\<open>"failed"\<close>.
  No handler of this front end writes that status; the interface admits it and the
  ledger is shared with other writers.
\<close>

definition ledger_failed :: ledger where
  "ledger_failed =
     ledger_z(entryName id_z :=
       Utf8Json (JObj [(''image'', JStr image_latin),
                       (''densityMap'', JStr []),
                       (''structure'', JStr []),
                       (''timestamp'', JNum 1700000000),
                       (''owner'', JStr ''0xA11CE''),
                       (''status'', JStr ''failed'')]))"

text \<open>
  The ledger in which the entry of Alice's record has a timestamp beyond the range of a
  double, the JSON numeral \<^verbatim>\<open>1e400\<close>, which \<^verbatim>\<open>JSON.parse\<close> reads as \<^verbatim>\<open>Infinity\<close>.
\<close>

definition ledger_huge :: ledger where
  "ledger_huge =
     ledger_z(entryName id_z :=
       Utf8Json (JObj [(''image'', JStr image_latin),
                       (''densityMap'', JStr []),
                       (''structure'', JStr []),
                       (''timestamp'', JInfinity),
                       (''owner'', JStr ''0xA11CE''),
                       (''status'', JStr ''processing'')]))"

text \<open>
  The ledger after Bob's upload into \<open>ledger_z\<close> in a call that reads the same clock
  and draws the same random characters as Alice's did.
\<close>

definition ledger_clash :: ledger where
  "ledger_clash = snd (uploadXrayImage bob env_z ledger_z)"

text \<open>The ledger after the uploads \<^verbatim>\<open>zzzzzzz\<close> then \<^verbatim>\<open>aaaaaaa\<close>, and in the other order.\<close>

definition ledger_za :: ledger where
  "ledger_za = snd (uploadXrayImage alice env_a ledger_z)"








section \<open>Properties of the platform functions\<close>

lemma digit_in_digits: "n < 10 \<Longrightarrow> digit n \<in> set ''0123456789''"
  unfolding digit_def by (rule nth_mem) simp

lemma string_of_nat_digits: "c \<in> set (string_of_nat n) \<Longrightarrow> c \<in> set ''0123456789''"
proof (induction n rule: string_of_nat.induct)
  case (1 n)
  show ?case
  proof (cases "n < 10")
    case True
    with "1.prems" have "c = digit n" by (simp add: string_of_nat.simps)
    with True show ?thesis using digit_in_digits by blast
  next
    case False
    with "1.prems" have "c \<in> set (string_of_nat (n div 10)) \<or> c = digit (n mod 10)"
      by (subst (asm) string_of_nat.simps) auto
    then show ?thesis
    proof
      assume "c \<in> set (string_of_nat (n div 10))"
      with False "1.IH" show ?thesis by blast
    next
      assume "c = digit (n mod 10)"
      then show ?thesis using digit_in_digits [of "n mod 10"] by simp
    qed
  qed
qed

lemma string_of_nat_not_Nil: "string_of_nat n \<noteq> []"
  by (subst string_of_nat.simps) simp

lemma map_of_indexed_name:
  "\<exists>c\<in>set name. c \<notin> set ''0123456789'' \<Longrightarrow> map_of (indexed i xs) name = None"
proof (induction xs arbitrary: i)
  case Nil
  show ?case by simp
next
  case (Cons x xs)
  from Cons.prems have "string_of_nat i \<noteq> name"
    using string_of_nat_digits by blast
  with Cons show ?case by simp
qed

lemma map_of_spread:
  "\<exists>c\<in>set name. c \<notin> set ''0123456789'' \<Longrightarrow>
     (case map_of (spread v) name of None \<Rightarrow> JUndefined | Some x \<Rightarrow> x) = getProp v name"
  by (cases v) (simp_all add: map_of_indexed_name)

lemma map_of_setProp: "map_of (setProp k v ps) = (map_of ps)(k \<mapsto> v)"
  by (induction ps) auto

lemma setProp_present: "map_of ps k = Some v \<Longrightarrow> setProp k v ps = ps"
  by (induction ps) (auto split: if_splits)

text \<open>What \<^verbatim>\<open>JSON.stringify\<close> followed by \<^verbatim>\<open>JSON.parse\<close> does to a value.\<close>

lemma json_norm_undefined: "json_norm x = JUndefined \<longleftrightarrow> x = JUndefined"
  by (cases x) simp_all

lemma json_norm_string: "undefined_to_null (json_norm x) = JStr s \<longleftrightarrow> x = JStr s"
  by (cases x) auto

lemma json_norm_isString: "isString x \<Longrightarrow> json_norm x = x"
  by (cases x) simp_all

lemma json_norm_isNumber: "isNumber x \<Longrightarrow> json_norm x = x"
  by (cases x) simp_all

lemma undefined_to_null_norm:
  "json_norm (json_norm x) = json_norm x \<Longrightarrow>
   undefined_to_null (json_norm (undefined_to_null (json_norm x))) = undefined_to_null (json_norm x)"
  by (cases "json_norm x") simp_all

lemma json_norm_idem: "json_norm (json_norm x) = json_norm x"
proof (induction x)
  case (JArr xs)
  then have "map (\<lambda>x. undefined_to_null (json_norm (undefined_to_null (json_norm x)))) xs =
             map (\<lambda>x. undefined_to_null (json_norm x)) xs"
    by (intro map_cong refl undefined_to_null_norm) simp
  then show ?case by (simp add: comp_def)
next
  case (JObj ps)
  let ?P = "\<lambda>p :: string \<times> jsval. snd p \<noteq> JUndefined"
  let ?f = "map_prod id json_norm :: string \<times> jsval \<Rightarrow> string \<times> jsval"
  have f: "json_norm (json_norm y) = json_norm y" if "(x, y) \<in> set ps" for x y
    using JObj [of "(x, y)" y] that by simp
  have "map ?f (filter ?P (map ?f ps)) = filter ?P (map ?f ps)"
    by (rule map_idI) (auto simp: f)
  then show ?case by simp
qed simp_all

lemma map_of_json_norm:
  "map_of ps k = Some v \<Longrightarrow> v \<noteq> JUndefined \<Longrightarrow>
   map_of (filter (\<lambda>p. snd p \<noteq> JUndefined) (map (map_prod id json_norm) ps)) k =
     Some (json_norm v)"
  by (induction ps) (auto simp: json_norm_undefined)

lemma map_of_json_norm_None:
  "map_of ps k = None \<Longrightarrow>
   map_of (filter (\<lambda>p. snd p \<noteq> JUndefined) (map (map_prod id json_norm) ps)) k = None"
  by (induction ps) auto

lemma map_of_isJSON:
  "list_all snd (map (map_prod id isJSON) ps) \<Longrightarrow> map_of ps k = Some v \<Longrightarrow> isJSON v"
  by (induction ps) (auto split: if_splits)

section \<open>Ids and keys\<close>

lemma entryKey_JStr: "entryKey (JStr s) = Inr (entryName s)"
  by (simp add: entryKey_def)

lemma entryName_keys: "entryName s = ''analysis_keys'' \<longleftrightarrow> s = ''keys''"
  by (simp add: entryName_def)

lemma analysisId_not_keys: "analysisId_of e \<noteq> ''keys''"
proof
  assume eq: "analysisId_of e = ''keys''"
  have "hd (string_of_nat (clock_id e)) \<in> set (string_of_nat (clock_id e))"
    using string_of_nat_not_Nil by simp
  then have "hd (string_of_nat (clock_id e)) \<in> set ''0123456789''"
    by (rule string_of_nat_digits)
  moreover have "hd (analysisId_of e) = hd (string_of_nat (clock_id e))"
    using string_of_nat_not_Nil by (simp add: analysisId_of_def)
  ultimately show False using eq by auto
qed

lemma entry_name_not_index: "entryName (analysisId_of e) \<noteq> ''analysis_keys''"
  using analysisId_not_keys [of e] by (simp add: entryName_keys)

lemma id_z_eq: "analysisId_of env_z = id_z"
  by (simp add: analysisId_of_def env_z_def id_z_def string_of_nat.simps digit_def)

lemma id_a_eq: "analysisId_of env_a = id_a"
  by (simp add: analysisId_of_def env_a_def env_z_def id_a_def string_of_nat.simps digit_def)

section \<open>The object that \<^verbatim>\<open>processWithFHE\<close> writes\<close>

lemma map_of_updatedData_status:
  "\<exists>ps. updatedData v = JObj ps \<and> map_of ps ''status'' = Some (JStr ''completed'') \<and>
        map_of ps ''structure'' = Some (JStr ''FHE-ENCRYPTED-STRUCTURE'') \<and>
        map_of ps ''densityMap'' = Some (JStr ''FHE-ENCRYPTED-DENSITY-MAP'')"
  by (simp add: updatedData_def map_of_setProp)

lemma map_of_updatedData_other:
  "k \<noteq> ''status'' \<Longrightarrow> k \<noteq> ''structure'' \<Longrightarrow> k \<noteq> ''densityMap'' \<Longrightarrow>
   \<exists>ps. updatedData v = JObj ps \<and> map_of ps k = map_of (spread v) k"
  by (simp add: updatedData_def map_of_setProp)

lemma getProp_written_status:
  "getProp (json_norm (updatedData v)) ''status'' = JStr ''completed''"
  using map_of_updatedData_status [of v] by (auto simp: map_of_json_norm)

lemma getProp_written_structure:
  "getProp (json_norm (updatedData v)) ''structure'' = JStr ''FHE-ENCRYPTED-STRUCTURE''"
  using map_of_updatedData_status [of v] by (auto simp: map_of_json_norm)

lemma getProp_written_densityMap:
  "getProp (json_norm (updatedData v)) ''densityMap'' = JStr ''FHE-ENCRYPTED-DENSITY-MAP''"
  using map_of_updatedData_status [of v] by (auto simp: map_of_json_norm)

lemma map_of_spread_isJSON:
  assumes "isJSON v" and "\<exists>c\<in>set k. c \<notin> set ''0123456789''" and "map_of (spread v) k = Some x"
  shows "x \<noteq> JUndefined"
proof (cases v)
  case (JObj ps)
  with assms(1,3) have "isJSON x" using map_of_isJSON [of ps k x] by simp
  then show ?thesis by auto
next
  case (JArr xs)
  with assms(2,3) show ?thesis by (simp add: map_of_indexed_name)
next
  case (JStr s)
  with assms(2,3) show ?thesis by (simp add: map_of_indexed_name)
qed (use assms(3) in simp_all)

lemma getProp_written_other:
  assumes "k \<noteq> ''status''" "k \<noteq> ''structure''" "k \<noteq> ''densityMap''"
      and "\<exists>c\<in>set k. c \<notin> set ''0123456789''"
      and "getProp v k \<noteq> JUndefined \<or> isJSON v"
  shows "getProp (json_norm (updatedData v)) k = json_norm (getProp v k)"
proof -
  from map_of_updatedData_other [OF assms(1-3), of v]
  obtain ps where u: "updatedData v = JObj ps" and m: "map_of ps k = map_of (spread v) k"
    by blast
  have g: "getProp v k = (case map_of (spread v) k of None \<Rightarrow> JUndefined | Some x \<Rightarrow> x)"
    using map_of_spread [OF assms(4), of v] by simp
  show ?thesis
  proof (cases "map_of (spread v) k")
    case None
    with m g show ?thesis by (simp add: u map_of_json_norm_None)
  next
    case (Some x)
    with g have x: "getProp v k = x" by simp
    have "x \<noteq> JUndefined"
      using assms(5) x map_of_spread_isJSON [OF _ assms(4) Some] by auto
    with m Some x show ?thesis by (simp add: u map_of_json_norm)
  qed
qed

lemma getProp_written_image:
  "getProp v ''image'' \<noteq> JUndefined \<or> isJSON v \<Longrightarrow>
   getProp (json_norm (updatedData v)) ''image'' = json_norm (getProp v ''image'')"
  by (rule getProp_written_other) simp_all

lemma getProp_written_timestamp:
  "getProp v ''timestamp'' \<noteq> JUndefined \<or> isJSON v \<Longrightarrow>
   getProp (json_norm (updatedData v)) ''timestamp'' = json_norm (getProp v ''timestamp'')"
  by (rule getProp_written_other) simp_all

lemma getProp_written_owner:
  "getProp v ''owner'' \<noteq> JUndefined \<or> isJSON v \<Longrightarrow>
   getProp (json_norm (updatedData v)) ''owner'' = json_norm (getProp v ''owner'')"
  by (rule getProp_written_other) simp_all

lemma written_not_null: "\<not> nullish (json_norm (updatedData v))"
  by (simp add: updatedData_def nullish_def)

lemma updatedData_not_undefined: "updatedData v \<noteq> JUndefined"
  by (simp add: updatedData_def)

lemma JSON_stringify_updatedData:
  "JSON_stringify (updatedData v) = Inr (Utf8Json (json_norm (updatedData v)))"
  by (simp add: JSON_stringify_def updatedData_not_undefined)

text \<open>Processing what a call of \<^verbatim>\<open>processWithFHE\<close> wrote writes the same again.\<close>

lemma written_idem:
  "json_norm (updatedData (json_norm (updatedData v))) = json_norm (updatedData v)"
proof -
  from map_of_updatedData_status [of v] obtain ps where
    ps: "updatedData v = JObj ps" and
    m: "map_of ps ''status'' = Some (JStr ''completed'')"
       "map_of ps ''structure'' = Some (JStr ''FHE-ENCRYPTED-STRUCTURE'')"
       "map_of ps ''densityMap'' = Some (JStr ''FHE-ENCRYPTED-DENSITY-MAP'')"
    by blast
  define qs where "qs = filter (\<lambda>p. snd p \<noteq> JUndefined) (map (map_prod id json_norm) ps)"
  have n: "json_norm (updatedData v) = JObj qs" by (simp add: ps qs_def)
  have q: "map_of qs ''status'' = Some (JStr ''completed'')"
       "map_of qs ''structure'' = Some (JStr ''FHE-ENCRYPTED-STRUCTURE'')"
       "map_of qs ''densityMap'' = Some (JStr ''FHE-ENCRYPTED-DENSITY-MAP'')"
    unfolding qs_def using m map_of_json_norm [of ps] by auto
  have u: "updatedData (JObj qs) = JObj qs"
    by (simp add: updatedData_def setProp_present q)
  have "json_norm (updatedData (json_norm (updatedData v))) = json_norm (updatedData (JObj qs))"
    by (simp only: n)
  also have "\<dots> = json_norm (json_norm (updatedData v))"
    by (simp only: u n)
  also have "\<dots> = json_norm (updatedData v)"
    by (rule json_norm_idem)
  finally show ?thesis .
qed

section \<open>Decoding and the entries of the ledger\<close>

lemma decode_Utf8Json:
  "\<not> nullish v \<Longrightarrow>
   decode k (Utf8Json v) =
     Inr \<lparr> id' = k, encryptedImage = getProp v ''image'',
           densityMap = getProp v ''densityMap'',
           molecularStructure = getProp v ''structure'',
           timestamp = getProp v ''timestamp'', owner = getProp v ''owner'',
           status = or_js (getProp v ''status'') (JStr ''processing'') \<rparr>"
  by (simp add: decode_def)

lemma decode_written:
  "decode k (Utf8Json (json_norm (updatedData v))) =
     Inr \<lparr> id' = k, encryptedImage = getProp (json_norm (updatedData v)) ''image'',
           densityMap = JStr ''FHE-ENCRYPTED-DENSITY-MAP'',
           molecularStructure = JStr ''FHE-ENCRYPTED-STRUCTURE'',
           timestamp = getProp (json_norm (updatedData v)) ''timestamp'',
           owner = getProp (json_norm (updatedData v)) ''owner'',
           status = JStr ''completed'' \<rparr>"
  by (simp only: decode_Utf8Json [OF written_not_null] getProp_written_status
        getProp_written_structure getProp_written_densityMap)
     (simp add: or_js_def)

lemma loadEntry_name:
  "entryKey k = Inr name \<Longrightarrow>
   loadEntry L k =
     Inr (if getData L name \<noteq> NoBytes
          then (case decode k (getData L name) of Inr r \<Rightarrow> Some r | Inl e \<Rightarrow> None)
          else None)"
  by (simp add: loadEntry_def Let_def)

lemma loadEntry_SomeD:
  assumes "loadEntry L k = Inr (Some r)"
  shows "\<exists>name v. entryKey k = Inr name \<and> getData L name = Utf8Json v \<and> \<not> nullish v \<and>
                  decode k (Utf8Json v) = Inr r"
proof (cases "entryKey k")
  case (Inl err)
  with assms show ?thesis by (simp add: loadEntry_def)
next
  case (Inr name)
  show ?thesis
  proof (cases "getData L name")
    case NoBytes
    with assms Inr show ?thesis by (simp add: loadEntry_name)
  next
    case Garbage
    with assms Inr show ?thesis by (simp add: loadEntry_name decode_def)
  next
    case (Utf8Json v)
    with assms Inr show ?thesis
      by (auto simp: loadEntry_name decode_def split: if_splits)
  qed
qed


lemma loadEntry_written:
  "entryKey k = Inr name \<Longrightarrow>
   loadEntry (L(name := Utf8Json (json_norm (updatedData v)))) k =
     Inr (Some \<lparr> id' = k, encryptedImage = getProp (json_norm (updatedData v)) ''image'',
                 densityMap = JStr ''FHE-ENCRYPTED-DENSITY-MAP'',
                 molecularStructure = JStr ''FHE-ENCRYPTED-STRUCTURE'',
                 timestamp = getProp (json_norm (updatedData v)) ''timestamp'',
                 owner = getProp (json_norm (updatedData v)) ''owner'',
                 status = JStr ''completed'' \<rparr>)"
  by (simp add: loadEntry_name getData_def decode_written)

section \<open>What \<^verbatim>\<open>processWithFHE\<close> does\<close>

lemma processWithFHE_Success:
  assumes "provider a" "signerContract e" "accept1 e"
      and "entryKey k = Inr name" and "getData L name = Utf8Json v"
  shows "processWithFHE a e L k =
           (Success, L(name := Utf8Json (json_norm (updatedData v))))"
  using assms by (simp add: processWithFHE_def setData_def JSON_stringify_updatedData)

lemma processWithFHE_cases:
  assumes "processWithFHE a e L k = (out, L')"
  shows "(out = Success \<and> provider a \<and> signerContract e \<and> accept1 e \<and>
          (\<exists>name v. entryKey k = Inr name \<and> getData L name = Utf8Json v \<and>
               L' = L(name := Utf8Json (json_norm (updatedData v)))))
         \<or> (out \<noteq> Success \<and> L' = L)"
proof (cases "entryKey k")
  case (Inl err)
  with assms show ?thesis by (auto simp: processWithFHE_def split: if_splits)
next
  case (Inr name)
  show ?thesis
  proof (cases "getData L name")
    case NoBytes
    with assms Inr show ?thesis by (auto simp: processWithFHE_def split: if_splits)
  next
    case Garbage
    with assms Inr show ?thesis by (auto simp: processWithFHE_def split: if_splits)
  next
    case (Utf8Json v)
    with assms Inr show ?thesis
      by (auto simp: processWithFHE_def setData_def JSON_stringify_updatedData split: if_splits)
  qed
qed

lemma processWithFHE_twice:
  assumes "provider a" "signerContract e" "accept1 e"
      and "entryKey k = Inr name" and "getData L name = Utf8Json v"
  shows "processWithFHE a e (L(name := Utf8Json (json_norm (updatedData v)))) k =
           (Success, L(name := Utf8Json (json_norm (updatedData v))))"
proof -
  let ?L1 = "L(name := Utf8Json (json_norm (updatedData v)))"
  have "getData ?L1 name = Utf8Json (json_norm (updatedData v))" by (simp add: getData_def)
  from processWithFHE_Success [OF assms(1-4) this]
  show ?thesis by (simp add: written_idem)
qed

lemma processWithFHE_account:
  "processWithFHE (a \<lparr> account := c \<rparr>) e L k = processWithFHE a e L k"
  by (simp add: processWithFHE_def)

lemma clickProcess_not_processing:
  "status d \<noteq> JStr ''processing'' \<Longrightarrow> clickProcess a e L d = None"
  by (simp add: clickProcess_def processButton_def split: sum.splits)

lemma clickProcess_not_owner:
  "isOwner a (owner d) \<noteq> Inr True \<Longrightarrow> clickProcess a e L d = None"
  by (auto simp: clickProcess_def processButton_def split: sum.splits)

lemma isOwner_bob_alice: "isOwner bob (JStr ''0xA11CE'') = Inr False"
  by (simp add: isOwner_def bob_def toLowerCase_def toLowerChar_def)

section \<open>What \<^verbatim>\<open>uploadXrayImage\<close> does\<close>

lemma readKeys_other:
  "key \<noteq> ''analysis_keys'' \<Longrightarrow> readKeys (L(key := b)) = readKeys L"
  by (simp add: readKeys_def getData_def)

lemma readKeys_index: "readKeys (L(''analysis_keys'' := Utf8Json v)) = v"
  by (simp add: readKeys_def getData_def)

lemma readKeys_empty: "readKeys empty_ledger = JArr []"
  by (simp add: readKeys_def getData_def empty_ledger_def)

lemma JSON_stringify_analysisData:
  "JSON_stringify (analysisData_of c a e) = Inr (Utf8Json (analysisData_of c a e))"
  by (simp add: JSON_stringify_def analysisData_of_def)

lemma decode_analysisData:
  "decode (JStr (analysisId_of e)) (Utf8Json (analysisData_of c a e)) = Inr (created c a e)"
  by (simp add: decode_def analysisData_of_def created_def nullish_def or_js_def)

lemma valid_created: "valid (created c a e)"
  by (simp add: valid_def created_def)

lemma loadEntry_created:
  assumes "getData L (entryName (analysisId_of e)) = Utf8Json (analysisData_of c a e)"
  shows "loadEntry L (JStr (analysisId_of e)) = Inr (Some (created c a e))"
  using assms by (simp add: loadEntry_name [OF entryKey_JStr] decode_analysisData)

lemma registerKey_array:
  "readKeys L = JArr keys \<Longrightarrow>
     registerKey L i accepted =
       (if accepted
        then Inr (L(''analysis_keys'' :=
                      Utf8Json (JArr (map undefined_to_null (map json_norm keys) @ [JStr i]))))
        else Inl LedgerError)"
  by (simp add: registerKey_def setData_def JSON_stringify_def)

lemma registerKey_other:
  assumes "registerKey L i accepted = Inr L2" and "key \<noteq> ''analysis_keys''"
  shows "getData L2 key = getData L key"
proof (cases "push (readKeys L) (JStr i)")
  case (Inl err)
  with assms(1) show ?thesis by (simp add: registerKey_def)
next
  case (Inr keys)
  with assms(1) obtain b where "L2 = L(''analysis_keys'' := b)"
    by (auto simp: registerKey_def setData_def split: if_splits sum.splits)
  with assms(2) show ?thesis by (simp add: getData_def)
qed

lemma uploadXrayImage_encrypted:
  assumes "provider a" "encryptedImage_of (newAnalysisData a) = Inr c" "signerContract e"
  shows "uploadXrayImage a e L =
           (if \<not> accept1 e then (Failure LedgerError, L)
            else case registerKey (L(entryName (analysisId_of e) := Utf8Json (analysisData_of c a e)))
                        (analysisId_of e) (accept2 e) of
                   Inl err \<Rightarrow>
                     (Failure err, L(entryName (analysisId_of e) := Utf8Json (analysisData_of c a e)))
                 | Inr L2 \<Rightarrow> (Success, L2))"
  using assms
  by (simp add: uploadXrayImage_def Let_def JSON_stringify_analysisData setData_def)

lemma uploadXrayImage_array:
  assumes "provider a" "encryptedImage_of (newAnalysisData a) = Inr c" "signerContract e"
      and "readKeys L = JArr keys"
  shows "uploadXrayImage a e L =
           (if \<not> accept1 e then (Failure LedgerError, L)
            else if \<not> accept2 e then
              (Failure LedgerError,
               L(entryName (analysisId_of e) := Utf8Json (analysisData_of c a e)))
            else
              (Success,
               L(entryName (analysisId_of e) := Utf8Json (analysisData_of c a e),
                 ''analysis_keys'' :=
                   Utf8Json (JArr (map undefined_to_null (map json_norm keys) @
                                   [JStr (analysisId_of e)])))))"
proof -
  let ?L1 = "L(entryName (analysisId_of e) := Utf8Json (analysisData_of c a e))"
  have "readKeys ?L1 = JArr keys"
    using assms(4) entry_name_not_index by (simp add: readKeys_other)
  then have reg: "registerKey ?L1 (analysisId_of e) (accept2 e) =
         (if accept2 e
          then Inr (?L1(''analysis_keys'' :=
                 Utf8Json (JArr (map undefined_to_null (map json_norm keys) @
                                 [JStr (analysisId_of e)]))))
          else Inl LedgerError)"
    by (rule registerKey_array)
  show ?thesis
    unfolding uploadXrayImage_encrypted [OF assms(1-3)] reg by simp
qed

lemma uploadXrayImage_throws:
  assumes "provider a" "encryptedImage_of (newAnalysisData a) = Inl err"
  shows "uploadXrayImage a e L = (Failure err, L)"
  using assms by (simp add: uploadXrayImage_def)

section \<open>The example states\<close>

lemma encrypted_latin: "encryptedImage_of form_latin = Inr image_latin"
  by (simp add: encryptedImage_of_def btoa_def form_json_def form_latin_def units_def
      quoteUnit_def isHighSurrogate_def isLowSurrogate_def b64char_def image_latin_def)

lemma encrypted_cjk: "encryptedImage_of form_cjk = Inl InvalidCharacterError"
  by (simp add: encryptedImage_of_def btoa_def form_json_def form_cjk_def units_def
      quoteUnit_def isHighSurrogate_def isLowSurrogate_def)

lemma alice_env:
  "provider alice" "signerContract env_z" "signerContract env_a"
  "accept1 env_z" "accept2 env_z" "accept1 env_a" "accept2 env_a"
  "encryptedImage_of (newAnalysisData alice) = Inr image_latin"
  by (simp_all add: alice_def env_z_def env_a_def encrypted_latin)

lemma bob_env:
  "provider bob" "encryptedImage_of (newAnalysisData bob) = Inr image_latin"
  by (simp_all add: bob_def encrypted_latin)

lemma record_z_eq:
  "record_z =
     \<lparr> id' = JStr id_z, encryptedImage = JStr image_latin, densityMap = JStr [],
       molecularStructure = JStr [], timestamp = JNum 1700000000, owner = JStr ''0xA11CE'',
       status = JStr ''processing'' \<rparr>"
  by (simp add: record_z_def created_def id_z_eq) (simp add: env_z_def alice_def)


lemma analysisData_z:
  "analysisData_of image_latin alice env_z =
     JObj [(''image'', JStr image_latin), (''densityMap'', JStr []), (''structure'', JStr []),
           (''timestamp'', JNum 1700000000), (''owner'', JStr ''0xA11CE''),
           (''status'', JStr ''processing'')]"
  by (simp add: analysisData_of_def alice_def env_z_def)

lemma ledger_z_eq:
  "ledger_z = empty_ledger(entryName id_z := Utf8Json (analysisData_of image_latin alice env_z),
                           ''analysis_keys'' := Utf8Json (JArr [JStr id_z]))"
  using uploadXrayImage_array [OF alice_env(1) alice_env(8) alice_env(2) readKeys_empty]
  by (simp add: ledger_z_def id_z_eq alice_env)

lemma readKeys_ledger_z: "readKeys ledger_z = JArr [JStr id_z]"
  by (simp add: ledger_z_eq readKeys_index)

lemma name_z_not_index: "entryName id_z \<noteq> ''analysis_keys''"
  using entry_name_not_index [of env_z] by (simp add: id_z_eq)

lemma getData_ledger_z_entry:
  "getData ledger_z (entryName id_z) = Utf8Json (analysisData_of image_latin alice env_z)"
  using name_z_not_index by (simp add: ledger_z_eq getData_def)

lemma loadEntry_ledger_z: "loadEntry ledger_z (JStr id_z) = Inr (Some record_z)"
  using loadEntry_created [of ledger_z env_z image_latin alice] getData_ledger_z_entry
  by (simp add: id_z_eq record_z_def)

lemma ledger_done_eq:
  "ledger_done =
     ledger_z(entryName id_z :=
       Utf8Json (json_norm (updatedData (analysisData_of image_latin alice env_z))))"
  using processWithFHE_Success [OF alice_env(1,2,4) entryKey_JStr getData_ledger_z_entry]
  by (simp add: ledger_done_def)

lemma process_ledger_z:
  "provider a \<Longrightarrow> processWithFHE a env_z ledger_z (JStr id_z) = (Success, ledger_done)"
  using processWithFHE_Success [OF _ alice_env(2,4) entryKey_JStr getData_ledger_z_entry, of a]
  by (simp add: ledger_done_eq)

lemma completed_record_z:
  "completed record_z =
     \<lparr> id' = JStr id_z, encryptedImage = JStr image_latin,
       densityMap = JStr ''FHE-ENCRYPTED-DENSITY-MAP'',
       molecularStructure = JStr ''FHE-ENCRYPTED-STRUCTURE'',
       timestamp = JNum 1700000000, owner = JStr ''0xA11CE'',
       status = JStr ''completed'' \<rparr>"
  by (simp add: completed_def record_z_eq)

lemma loadEntry_ledger_done:
  "loadEntry ledger_done (JStr id_z) = Inr (Some (completed record_z))"
  unfolding ledger_done_eq loadEntry_written [OF entryKey_JStr] completed_record_z
  by (simp add: getProp_written_image getProp_written_timestamp getProp_written_owner
      analysisData_z)

lemma process_ledger_done:
  "processWithFHE alice env_z ledger_done (JStr id_z) = (Success, ledger_done)"
  unfolding ledger_done_eq
  by (rule processWithFHE_twice [OF alice_env(1,2,4) entryKey_JStr getData_ledger_z_entry])

lemma getData_ledger_failed:
  "getData ledger_failed (entryName id_z) =
     Utf8Json (JObj [(''image'', JStr image_latin), (''densityMap'', JStr []),
                     (''structure'', JStr []), (''timestamp'', JNum 1700000000),
                     (''owner'', JStr ''0xA11CE''), (''status'', JStr ''failed'')])"
  by (simp add: ledger_failed_def getData_def)

lemma loadEntry_ledger_failed:
  "loadEntry ledger_failed (JStr id_z) = Inr (Some (record_z \<lparr> status := JStr ''failed'' \<rparr>))"
  by (simp add: loadEntry_name [OF entryKey_JStr] getData_ledger_failed decode_def nullish_def
      or_js_def record_z_eq)

lemma process_ledger_failed:
  "processWithFHE alice env_z ledger_failed (JStr id_z) = (Success, ledger_done)"
proof -
  have u: "updatedData (JObj [(''image'', JStr image_latin), (''densityMap'', JStr []),
                     (''structure'', JStr []), (''timestamp'', JNum 1700000000),
                     (''owner'', JStr ''0xA11CE''), (''status'', JStr ''failed'')]) =
           updatedData (analysisData_of image_latin alice env_z)"
    by (simp add: updatedData_def analysisData_z)
  show ?thesis
    unfolding processWithFHE_Success
      [OF alice_env(1,2,4) entryKey_JStr getData_ledger_failed] u ledger_done_eq
    by (simp add: ledger_failed_def)
qed

lemma processWithFHE_record:
  assumes "processWithFHE a e L k = (Success, L')" and "loadEntry L k = Inr (Some r)"
  shows "\<exists>name v. entryKey k = Inr name \<and> getData L name = Utf8Json v \<and> \<not> nullish v \<and>
                  L' = L(name := Utf8Json (json_norm (updatedData v))) \<and>
                  r = \<lparr> id' = k, encryptedImage = getProp v ''image'',
                        densityMap = getProp v ''densityMap'',
                        molecularStructure = getProp v ''structure'',
                        timestamp = getProp v ''timestamp'', owner = getProp v ''owner'',
                        status = or_js (getProp v ''status'') (JStr ''processing'') \<rparr>"
proof -
  from loadEntry_SomeD [OF assms(2)] obtain name v where
    n: "entryKey k = Inr name" and v: "getData L name = Utf8Json v" and
    nn: "\<not> nullish v" and d: "decode k (Utf8Json v) = Inr r"
    by blast
  from processWithFHE_cases [OF assms(1)] n v
  have "L' = L(name := Utf8Json (json_norm (updatedData v)))" by auto
  moreover from d nn have "r = \<lparr> id' = k, encryptedImage = getProp v ''image'',
                        densityMap = getProp v ''densityMap'',
                        molecularStructure = getProp v ''structure'',
                        timestamp = getProp v ''timestamp'', owner = getProp v ''owner'',
                        status = or_js (getProp v ''status'') (JStr ''processing'') \<rparr>"
    by (simp add: decode_Utf8Json)
  ultimately show ?thesis using n v nn by blast
qed

lemma processWithFHE_completes:
  assumes "provider a" "signerContract e" "accept1 e" "loadEntry L k = Inr (Some r)"
  shows "\<exists>L1 r1. processWithFHE a e L k = (Success, L1) \<and>
                 loadEntry L1 k = Inr (Some r1) \<and> status r1 = JStr ''completed'' \<and>
                 densityMap r1 = JStr ''FHE-ENCRYPTED-DENSITY-MAP'' \<and>
                 molecularStructure r1 = JStr ''FHE-ENCRYPTED-STRUCTURE'' \<and>
                 processWithFHE a e L1 k = (Success, L1)"
proof -
  from loadEntry_SomeD [OF assms(4)] obtain name v where
    n: "entryKey k = Inr name" and v: "getData L name = Utf8Json v" by blast
  let ?L1 = "L(name := Utf8Json (json_norm (updatedData v)))"
  have "processWithFHE a e L k = (Success, ?L1)"
    by (rule processWithFHE_Success [OF assms(1-3) n v])
  moreover have "processWithFHE a e ?L1 k = (Success, ?L1)"
    by (rule processWithFHE_twice [OF assms(1-3) n v])
  moreover note loadEntry_written [OF n, of L v]
  ultimately show ?thesis by simp
qed

section \<open>The claims about \<^verbatim>\<open>processWithFHE\<close>\<close>

text \<open>
  Claim C10 as stated fails. The entry of Alice's record holds a timestamp beyond the
  range of a double (the numeral \<^verbatim>\<open>1e400\<close>), which the listing decodes as
  \<^verbatim>\<open>Infinity\<close>. She processes the record, successfully; \<^verbatim>\<open>JSON.stringify\<close> writes
  \<^verbatim>\<open>Infinity\<close> as \<^verbatim>\<open>null\<close>, and the timestamp that the listing decodes afterwards is
  \<^verbatim>\<open>null\<close>.
\<close>

theorem processWithFHE_rewrites_timestamp:
  "map_sum id (map_option timestamp) (loadEntry ledger_huge (JStr id_z)) =
     Inr (Some JInfinity) \<and>
   fst (processWithFHE alice env_z ledger_huge (JStr id_z)) = Success \<and>
   map_sum id (map_option timestamp)
     (loadEntry (snd (processWithFHE alice env_z ledger_huge (JStr id_z))) (JStr id_z)) =
     Inr (Some JNull)"
proof -
  let ?v = "JObj [(''image'', JStr image_latin), (''densityMap'', JStr []),
                  (''structure'', JStr []), (''timestamp'', JInfinity),
                  (''owner'', JStr ''0xA11CE''), (''status'', JStr ''processing'')]"
  have g: "getData ledger_huge (entryName id_z) = Utf8Json ?v"
    by (simp add: ledger_huge_def getData_def)
  have "map_sum id (map_option timestamp) (loadEntry ledger_huge (JStr id_z)) =
          Inr (Some JInfinity)"
    by (simp add: loadEntry_name [OF entryKey_JStr] g decode_def nullish_def)
  moreover have "getProp (json_norm (updatedData ?v)) ''timestamp'' = JNull"
    by (simp add: getProp_written_timestamp)
  ultimately show ?thesis
    unfolding processWithFHE_Success [OF alice_env(1,2,4) entryKey_JStr g]
    by (simp add: loadEntry_written [OF entryKey_JStr])
qed

text \<open>
  Claim C10, as amended (frame condition of the update). A successful
  \<^verbatim>\<open>processWithFHE\<close> on an entry that the listing decodes to \<open>r\<close> leaves an entry that
  decodes to a record with the same id, and no other entry of the ledger changes. The owner,
  the timestamp and the encrypted image pass through \<^verbatim>\<open>JSON.stringify\<close> and
  \<^verbatim>\<open>JSON.parse\<close> (\<open>json_norm\<close>): a string and a finite number are the same after the
  call as before it, a field that is missing stays missing, an infinite number becomes
  \<^verbatim>\<open>null\<close> and \<^verbatim>\<open>-0\<close> becomes \<^verbatim>\<open>0\<close>. (\<open>isJSON v\<close> holds of every value that
  \<^verbatim>\<open>JSON.parse\<close> returns; without it the statement is for the fields that are not
  \<^verbatim>\<open>undefined\<close>.)
\<close>

theorem processWithFHE_frame:
  assumes "processWithFHE a e L k = (Success, L')" and "loadEntry L k = Inr (Some r)"
      and "entryKey k = Inr name" and "getData L name = Utf8Json v"
  shows "\<exists>r'. loadEntry L' k = Inr (Some r') \<and> id' r' = id' r \<and>
              (owner r \<noteq> JUndefined \<or> isJSON v \<longrightarrow> owner r' = json_norm (owner r)) \<and>
              (timestamp r \<noteq> JUndefined \<or> isJSON v \<longrightarrow>
                 timestamp r' = json_norm (timestamp r)) \<and>
              (encryptedImage r \<noteq> JUndefined \<or> isJSON v \<longrightarrow>
                 encryptedImage r' = json_norm (encryptedImage r)) \<and>
              (isString (owner r) \<longrightarrow> owner r' = owner r) \<and>
              (isNumber (timestamp r) \<longrightarrow> timestamp r' = timestamp r) \<and>
              (isString (encryptedImage r) \<longrightarrow> encryptedImage r' = encryptedImage r) \<and>
              (\<forall>key. key \<noteq> name \<longrightarrow> getData L' key = getData L key)"
proof -
  from processWithFHE_record [OF assms(1,2)] assms(3,4)
  have L': "L' = L(name := Utf8Json (json_norm (updatedData v)))"
    and r: "r = \<lparr> id' = k, encryptedImage = getProp v ''image'',
                        densityMap = getProp v ''densityMap'',
                        molecularStructure = getProp v ''structure'',
                        timestamp = getProp v ''timestamp'', owner = getProp v ''owner'',
                        status = or_js (getProp v ''status'') (JStr ''processing'') \<rparr>"
    by auto
  let ?r' = "\<lparr> id' = k, encryptedImage = getProp (json_norm (updatedData v)) ''image'',
                 densityMap = JStr ''FHE-ENCRYPTED-DENSITY-MAP'',
                 molecularStructure = JStr ''FHE-ENCRYPTED-STRUCTURE'',
                 timestamp = getProp (json_norm (updatedData v)) ''timestamp'',
                 owner = getProp (json_norm (updatedData v)) ''owner'',
                 status = JStr ''completed'' \<rparr>"
  have l: "loadEntry L' k = Inr (Some ?r')"
    unfolding L' by (rule loadEntry_written [OF assms(3)])
  have o: "owner r \<noteq> JUndefined \<or> isJSON v \<longrightarrow> owner ?r' = json_norm (owner r)"
    by (simp add: r getProp_written_owner)
  have t: "timestamp r \<noteq> JUndefined \<or> isJSON v \<longrightarrow> timestamp ?r' = json_norm (timestamp r)"
    by (simp add: r getProp_written_timestamp)
  have i: "encryptedImage r \<noteq> JUndefined \<or> isJSON v \<longrightarrow>
             encryptedImage ?r' = json_norm (encryptedImage r)"
    by (simp add: r getProp_written_image)
  have os: "isString (owner r) \<longrightarrow> owner ?r' = owner r"
    using o json_norm_isString [of "owner r"] by auto
  have tn: "isNumber (timestamp r) \<longrightarrow> timestamp ?r' = timestamp r"
    using t json_norm_isNumber [of "timestamp r"] by auto
  have ims: "isString (encryptedImage r) \<longrightarrow> encryptedImage ?r' = encryptedImage r"
    using i json_norm_isString [of "encryptedImage r"] by auto
  have f: "\<forall>key. key \<noteq> name \<longrightarrow> getData L' key = getData L key"
    by (simp add: L' getData_def)
  have "id' ?r' = id' r" by (simp add: r)
  with l o t i os tn ims f show ?thesis by blast
qed

theorem processWithFHE_frame_witness:
  "processWithFHE alice env_z ledger_z (JStr id_z) = (Success, ledger_done) \<and>
   loadEntry ledger_z (JStr id_z) = Inr (Some record_z) \<and>
   entryKey (JStr id_z) = Inr (entryName id_z) \<and>
   getData ledger_z (entryName id_z) = Utf8Json (analysisData_of image_latin alice env_z) \<and>
   isJSON (analysisData_of image_latin alice env_z) \<and>
   isString (owner record_z) \<and> isNumber (timestamp record_z) \<and>
   isString (encryptedImage record_z) \<and>
   (\<exists>r'. loadEntry ledger_done (JStr id_z) = Inr (Some r') \<and>
         id' r' = JStr id_z \<and> owner r' = JStr ''0xA11CE'' \<and>
         timestamp r' = JNum 1700000000 \<and> encryptedImage r' = JStr image_latin) \<and>
   ''analysis_keys'' \<noteq> entryName id_z \<and>
   getData ledger_done ''analysis_keys'' = getData ledger_z ''analysis_keys''"
proof -
  have p: "processWithFHE alice env_z ledger_z (JStr id_z) = (Success, ledger_done)"
    by (rule process_ledger_z) (simp add: alice_def)
  have j: "isJSON (analysisData_of image_latin alice env_z)"
    by (simp add: analysisData_of_def)
  from processWithFHE_frame [OF p loadEntry_ledger_z entryKey_JStr getData_ledger_z_entry]
  obtain r' where "loadEntry ledger_done (JStr id_z) = Inr (Some r')"
    and "id' r' = JStr id_z" and "owner r' = JStr ''0xA11CE''"
    and "timestamp r' = JNum 1700000000" and "encryptedImage r' = JStr image_latin"
    and "\<forall>key. key \<noteq> entryName id_z \<longrightarrow> getData ledger_done key = getData ledger_z key"
    by (auto simp: record_z_eq)
  then show ?thesis
    using p loadEntry_ledger_z getData_ledger_z_entry j name_z_not_index [symmetric]
    by (auto simp: record_z_eq entryKey_JStr)
qed

text \<open>
  Claim C2 as stated fails. Alice processes her record, which becomes \<^verbatim>\<open>"completed"\<close>,
  and processes it again: the second call succeeds like the first, there is no
  \<^verbatim>\<open>AlreadyTerminal\<close>. And a record that the ledger holds as \<^verbatim>\<open>"failed"\<close> is not left
  alone: the call succeeds and the stored record is \<^verbatim>\<open>"completed"\<close> afterwards.
\<close>

theorem second_advance_succeeds:
  "processWithFHE alice env_z ledger_z (JStr id_z) = (Success, ledger_done) \<and>
   loadEntry ledger_done (JStr id_z) = Inr (Some (completed record_z)) \<and>
   status (completed record_z) = JStr ''completed'' \<and>
   processWithFHE alice env_z ledger_done (JStr id_z) = (Success, ledger_done) \<and>
   loadEntry ledger_failed (JStr id_z) = Inr (Some (record_z \<lparr> status := JStr ''failed'' \<rparr>)) \<and>
   processWithFHE alice env_z ledger_failed (JStr id_z) = (Success, ledger_done)"
  using process_ledger_z [of alice] process_ledger_done process_ledger_failed
  by (simp add: loadEntry_ledger_done loadEntry_ledger_failed completed_def alice_env)

text \<open>
  Claim C2, as amended. \<^verbatim>\<open>processWithFHE\<close> does not look at the status of the record. On
  every entry that decodes, whatever its status and so also \<^verbatim>\<open>"completed"\<close> or
  \<^verbatim>\<open>"failed"\<close>, a call with a connected wallet, a signer contract and an accepted
  transaction succeeds and stores the status \<^verbatim>\<open>"completed"\<close> with the two placeholder
  artifacts; a second call in sequence succeeds again and leaves the ledger as the first
  call left it. The only guard is in the user interface: for a displayed record whose
  status is not \<^verbatim>\<open>"processing"\<close> no button is rendered, so that no call is made.
\<close>

theorem processWithFHE_no_terminal_check:
  assumes "provider a" "signerContract e" "accept1 e" "loadEntry L k = Inr (Some r)"
  shows "(\<exists>L1 r1. processWithFHE a e L k = (Success, L1) \<and>
                  loadEntry L1 k = Inr (Some r1) \<and> status r1 = JStr ''completed'' \<and>
                  densityMap r1 = JStr ''FHE-ENCRYPTED-DENSITY-MAP'' \<and>
                  molecularStructure r1 = JStr ''FHE-ENCRYPTED-STRUCTURE'' \<and>
                  processWithFHE a e L1 k = (Success, L1)) \<and>
         (status d \<noteq> JStr ''processing'' \<longrightarrow> clickProcess a e L d = None)"
  using processWithFHE_completes [OF assms] clickProcess_not_processing by blast

theorem processWithFHE_no_terminal_check_witness:
  "provider alice \<and> signerContract env_z \<and> accept1 env_z \<and>
   loadEntry ledger_failed (JStr id_z) = Inr (Some (record_z \<lparr> status := JStr ''failed'' \<rparr>)) \<and>
   (\<exists>L1 r1. processWithFHE alice env_z ledger_failed (JStr id_z) = (Success, L1) \<and>
            loadEntry L1 (JStr id_z) = Inr (Some r1) \<and> status r1 = JStr ''completed'' \<and>
            densityMap r1 = JStr ''FHE-ENCRYPTED-DENSITY-MAP'' \<and>
            molecularStructure r1 = JStr ''FHE-ENCRYPTED-STRUCTURE'' \<and>
            processWithFHE alice env_z L1 (JStr id_z) = (Success, L1)) \<and>
   status (record_z \<lparr> status := JStr ''failed'' \<rparr>) \<noteq> JStr ''processing'' \<and>
   clickProcess alice env_z ledger_failed (record_z \<lparr> status := JStr ''failed'' \<rparr>) = None"
  using processWithFHE_no_terminal_check [OF alice_env(1,2,4) loadEntry_ledger_failed,
      of "record_z \<lparr> status := JStr ''failed'' \<rparr>"]
    alice_env(1,2,4) loadEntry_ledger_failed
  by simp

text \<open>
  Claim C1 as stated fails. Alice's record is in status \<^verbatim>\<open>"processing"\<close>; Bob, who is not
  its owner, calls \<^verbatim>\<open>processWithFHE\<close> on it with his wallet connected. The call succeeds
  and the stored status is \<^verbatim>\<open>"completed"\<close>.
\<close>

theorem non_owner_advance_succeeds:
  "loadEntry ledger_z (JStr id_z) = Inr (Some record_z) \<and>
   status record_z = JStr ''processing'' \<and>
   isOwner bob (owner record_z) = Inr False \<and>
   processWithFHE bob env_z ledger_z (JStr id_z) = (Success, ledger_done) \<and>
   loadEntry ledger_done (JStr id_z) = Inr (Some (completed record_z)) \<and>
   status (completed record_z) = JStr ''completed''"
  using process_ledger_z [of bob] loadEntry_ledger_z isOwner_bob_alice loadEntry_ledger_done
  by (simp add: completed_def bob_env) (simp add: record_z_eq)

text \<open>
  Claim C1, as amended. \<^verbatim>\<open>processWithFHE\<close> makes no authorization check: what it returns
  and what it writes do not depend on the account of the caller, and with a connected
  wallet, a signer contract and an accepted transaction it succeeds on every entry that
  decodes, whoever the owner of the record is. The ownership test is in the user interface
  only: unless \<^verbatim>\<open>isOwner\<close> holds of the displayed record's owner, no button that calls
  \<^verbatim>\<open>processWithFHE\<close> is rendered for it, so that no call is made and nothing is written.
\<close>

theorem processWithFHE_ignores_account:
  "processWithFHE (a \<lparr> account := c \<rparr>) e L k = processWithFHE a e L k \<and>
   (isOwner a (owner d) \<noteq> Inr True \<longrightarrow> clickProcess a e L d = None) \<and>
   (provider a \<and> signerContract e \<and> accept1 e \<and> loadEntry L k = Inr (Some r) \<longrightarrow>
      (\<exists>L1 r1. processWithFHE a e L k = (Success, L1) \<and>
               loadEntry L1 k = Inr (Some r1) \<and> status r1 = JStr ''completed''))"
proof -
  have "provider a \<and> signerContract e \<and> accept1 e \<and> loadEntry L k = Inr (Some r) \<longrightarrow>
      (\<exists>L1 r1. processWithFHE a e L k = (Success, L1) \<and>
               loadEntry L1 k = Inr (Some r1) \<and> status r1 = JStr ''completed'')"
    using processWithFHE_completes [of a e L k r] by blast
  then show ?thesis
    using processWithFHE_account clickProcess_not_owner by blast
qed

theorem processWithFHE_ignores_account_witness:
  "processWithFHE (bob \<lparr> account := ''0xA11CE'' \<rparr>) env_z ledger_z (JStr id_z) =
     processWithFHE bob env_z ledger_z (JStr id_z) \<and>
   isOwner bob (owner record_z) \<noteq> Inr True \<and>
   clickProcess bob env_z ledger_z record_z = None \<and>
   provider bob \<and> signerContract env_z \<and> accept1 env_z \<and>
   loadEntry ledger_z (JStr id_z) = Inr (Some record_z) \<and>
   (\<exists>L1 r1. processWithFHE bob env_z ledger_z (JStr id_z) = (Success, L1) \<and>
            loadEntry L1 (JStr id_z) = Inr (Some r1) \<and> status r1 = JStr ''completed'')"
proof -
  have "isOwner bob (owner record_z) = Inr False"
    using isOwner_bob_alice by (simp add: record_z_eq)
  then show ?thesis
    using processWithFHE_ignores_account
      [where a = bob and c = "''0xA11CE''" and e = env_z and L = ledger_z
         and k = "JStr id_z" and d = record_z and r = record_z]
      bob_env(1) alice_env(2,4) loadEntry_ledger_z
    by simp
qed

section \<open>The claim about the serialised form\<close>

lemma getProp_json_norm_defined:
  assumes "getProp (JObj ps) k = x" and "x \<noteq> JUndefined"
  shows "getProp (json_norm (JObj ps)) k = json_norm x"
proof (cases "map_of ps k")
  case None
  with assms show ?thesis by simp
next
  case (Some y)
  with assms have "y = x" by simp
  with Some assms(2) show ?thesis by (simp add: map_of_json_norm)
qed

lemma isString_defined: "isString x \<Longrightarrow> x \<noteq> JUndefined"
  by auto

lemma isNumber_defined: "isNumber x \<Longrightarrow> x \<noteq> JUndefined"
  by auto

lemma valid_completed: "valid r \<Longrightarrow> valid (completed r)"
  by (simp add: valid_def completed_def)

lemma valid_truthy: "valid r \<Longrightarrow> truthy (status r)"
  by (auto simp: valid_def)

lemma valid_status_norm: "valid r \<Longrightarrow> json_norm (status r) = status r"
  by (auto simp: valid_def)

lemma loadEntry_upload:
  assumes "provider a" "encryptedImage_of (newAnalysisData a) = Inr c" "signerContract e"
      and "accept1 e"
  shows "loadEntry (snd (uploadXrayImage a e L)) (JStr (analysisId_of e)) =
           Inr (Some (created c a e))"
proof -
  let ?L1 = "L(entryName (analysisId_of e) := Utf8Json (analysisData_of c a e))"
  have g1: "getData ?L1 (entryName (analysisId_of e)) = Utf8Json (analysisData_of c a e)"
    by (simp add: getData_def)
  show ?thesis
  proof (cases "registerKey ?L1 (analysisId_of e) (accept2 e)")
    case (Inl err)
    then have "snd (uploadXrayImage a e L) = ?L1"
      unfolding uploadXrayImage_encrypted [OF assms(1-3)] using assms(4) by simp
    with loadEntry_created [OF g1] show ?thesis by simp
  next
    case (Inr L2)
    then have s: "snd (uploadXrayImage a e L) = L2"
      unfolding uploadXrayImage_encrypted [OF assms(1-3)] using assms(4) by simp
    have "getData L2 (entryName (analysisId_of e)) = Utf8Json (analysisData_of c a e)"
      using registerKey_other [OF Inr entry_name_not_index] g1 by simp
    from loadEntry_created [OF this] s show ?thesis by simp
  qed
qed

lemma loadEntry_processed_valid:
  assumes "valid r" and "loadEntry L k = Inr (Some r)"
      and "processWithFHE a e L k = (Success, L')"
  shows "loadEntry L' k = Inr (Some (completed r))"
proof -
  from processWithFHE_record [OF assms(3,2)] obtain name v where
    n: "entryKey k = Inr name" and
    L': "L' = L(name := Utf8Json (json_norm (updatedData v)))" and
    r: "r = \<lparr> id' = k, encryptedImage = getProp v ''image'',
                        densityMap = getProp v ''densityMap'',
                        molecularStructure = getProp v ''structure'',
                        timestamp = getProp v ''timestamp'', owner = getProp v ''owner'',
                        status = or_js (getProp v ''status'') (JStr ''processing'') \<rparr>"
    by blast
  from assms(1) have s: "isString (getProp v ''image'')" "isNumber (getProp v ''timestamp'')"
      "isString (getProp v ''owner'')"
    unfolding valid_def by (simp_all add: r)
  have "getProp (json_norm (updatedData v)) ''image'' = getProp v ''image''"
    using s(1) by (simp add: getProp_written_image isString_defined json_norm_isString)
  moreover have "getProp (json_norm (updatedData v)) ''timestamp'' = getProp v ''timestamp''"
    using s(2) by (simp add: getProp_written_timestamp isNumber_defined json_norm_isNumber)
  moreover have "getProp (json_norm (updatedData v)) ''owner'' = getProp v ''owner''"
    using s(3) by (simp add: getProp_written_owner isString_defined json_norm_isString)
  ultimately show ?thesis
    unfolding L' loadEntry_written [OF n] by (simp add: completed_def r)
qed

lemma decode_stringify_valid:
  assumes "valid r"
      and "getProp (JObj ps) ''image'' = encryptedImage r"
      and "getProp (JObj ps) ''densityMap'' = densityMap r"
      and "getProp (JObj ps) ''structure'' = molecularStructure r"
      and "getProp (JObj ps) ''timestamp'' = timestamp r"
      and "getProp (JObj ps) ''owner'' = owner r"
      and "getProp (JObj ps) ''status'' = status r"
  shows "\<exists>b. JSON_stringify (JObj ps) = Inr b \<and> decode (id' r) b = Inr r"
proof -
  from assms(1) have v: "isString (encryptedImage r)" "isString (densityMap r)"
    "isString (molecularStructure r)" "isNumber (timestamp r)" "isString (owner r)"
    "status r \<noteq> JUndefined"
    by (auto simp: valid_def)
  have g: "getProp (json_norm (JObj ps)) ''image'' = encryptedImage r"
    "getProp (json_norm (JObj ps)) ''densityMap'' = densityMap r"
    "getProp (json_norm (JObj ps)) ''structure'' = molecularStructure r"
    "getProp (json_norm (JObj ps)) ''timestamp'' = timestamp r"
    "getProp (json_norm (JObj ps)) ''owner'' = owner r"
    "getProp (json_norm (JObj ps)) ''status'' = status r"
    using getProp_json_norm_defined [OF assms(2)] getProp_json_norm_defined [OF assms(3)]
      getProp_json_norm_defined [OF assms(4)] getProp_json_norm_defined [OF assms(5)]
      getProp_json_norm_defined [OF assms(6)] getProp_json_norm_defined [OF assms(7)]
      v valid_status_norm [OF assms(1)]
    by (simp_all only: isString_defined isNumber_defined json_norm_isString json_norm_isNumber
        not_False_eq_True simp_thms)
  have n: "\<not> nullish (json_norm (JObj ps))" by (simp add: nullish_def)
  have "decode (id' r) (Utf8Json (json_norm (JObj ps))) = Inr r"
    unfolding decode_Utf8Json [OF n] g
    using valid_truthy [OF assms(1)] by (simp add: or_js_def)
  then show ?thesis by (simp add: JSON_stringify_def)
qed

text \<open>
  Claim C7 (round trip of the codec). The code has no function from records to bytes:
  the serialisation is \<^verbatim>\<open>JSON.stringify\<close> of the object literal of lines 154 to 161 at
  creation and of the object of lines 251 to 256 at update, and the decoding is lines 101 to
  110 of \<^verbatim>\<open>loadAnalysisData\<close>. The round trip is stated on what the handlers write. The
  record that \<^verbatim>\<open>uploadXrayImage\<close> builds is valid and is what the listing decodes from the
  entry that the call wrote. For a valid record that the listing decodes from its entry,
  the record that \<^verbatim>\<open>processWithFHE\<close> builds, with the two artifacts and the status
  \<^verbatim>\<open>"completed"\<close>, is valid and is what the listing decodes from the entry after the
  call. And whatever object carries the fields of a valid record in the properties that the
  code uses, in any order, decoding its serialisation under the record's id gives the
  record.
\<close>

theorem stored_record_round_trip:
  "(provider a \<and> encryptedImage_of (newAnalysisData a) = Inr c \<and> signerContract e \<and>
    accept1 e \<longrightarrow>
      valid (created c a e) \<and>
      loadEntry (snd (uploadXrayImage a e L)) (JStr (analysisId_of e)) =
        Inr (Some (created c a e))) \<and>
   (valid r \<and> loadEntry L (id' r) = Inr (Some r) \<and>
    processWithFHE a e L (id' r) = (Success, L') \<longrightarrow>
      valid (completed r) \<and> loadEntry L' (id' r) = Inr (Some (completed r))) \<and>
   (valid r \<and> getProp (JObj ps) ''image'' = encryptedImage r \<and>
    getProp (JObj ps) ''densityMap'' = densityMap r \<and>
    getProp (JObj ps) ''structure'' = molecularStructure r \<and>
    getProp (JObj ps) ''timestamp'' = timestamp r \<and>
    getProp (JObj ps) ''owner'' = owner r \<and>
    getProp (JObj ps) ''status'' = status r \<longrightarrow>
      (\<exists>b. JSON_stringify (JObj ps) = Inr b \<and> decode (id' r) b = Inr r))"
  using loadEntry_upload [of a c e L] valid_created [of c a e]
    loadEntry_processed_valid [of r L "id' r" a e L'] valid_completed [of r]
    decode_stringify_valid [of r ps]
  by blast

theorem stored_record_round_trip_witness:
  "provider alice \<and> encryptedImage_of (newAnalysisData alice) = Inr image_latin \<and>
   signerContract env_z \<and> accept1 env_z \<and>
   valid record_z \<and>
   loadEntry (snd (uploadXrayImage alice env_z empty_ledger)) (JStr id_z) =
     Inr (Some record_z) \<and>
   loadEntry ledger_z (JStr id_z) = Inr (Some record_z) \<and>
   processWithFHE alice env_z ledger_z (JStr id_z) = (Success, ledger_done) \<and>
   valid (completed record_z) \<and>
   loadEntry ledger_done (JStr id_z) = Inr (Some (completed record_z)) \<and>
   getProp (analysisData_of image_latin alice env_z) ''image'' = encryptedImage record_z \<and>
   getProp (analysisData_of image_latin alice env_z) ''densityMap'' = densityMap record_z \<and>
   getProp (analysisData_of image_latin alice env_z) ''structure'' =
     molecularStructure record_z \<and>
   getProp (analysisData_of image_latin alice env_z) ''timestamp'' = timestamp record_z \<and>
   getProp (analysisData_of image_latin alice env_z) ''owner'' = owner record_z \<and>
   getProp (analysisData_of image_latin alice env_z) ''status'' = status record_z \<and>
   (\<exists>b. JSON_stringify (analysisData_of image_latin alice env_z) = Inr b \<and>
        decode (JStr id_z) b = Inr record_z)"
proof -
  have i: "id' record_z = JStr id_z" by (simp add: record_z_eq)
  have p: "processWithFHE alice env_z ledger_z (id' record_z) = (Success, ledger_done)"
    unfolding i by (rule process_ledger_z) (rule alice_env)
  have g: "getProp (analysisData_of image_latin alice env_z) ''image'' = encryptedImage record_z"
    "getProp (analysisData_of image_latin alice env_z) ''densityMap'' = densityMap record_z"
    "getProp (analysisData_of image_latin alice env_z) ''structure'' =
       molecularStructure record_z"
    "getProp (analysisData_of image_latin alice env_z) ''timestamp'' = timestamp record_z"
    "getProp (analysisData_of image_latin alice env_z) ''owner'' = owner record_z"
    "getProp (analysisData_of image_latin alice env_z) ''status'' = status record_z"
    by (simp_all add: analysisData_z record_z_eq)
  have v: "valid record_z" unfolding record_z_def by (rule valid_created)
  from stored_record_round_trip
    [where a = alice and c = image_latin and e = env_z and L = empty_ledger]
    alice_env
  have 1: "loadEntry (snd (uploadXrayImage alice env_z empty_ledger)) (JStr id_z) =
     Inr (Some record_z)"
    by (simp add: id_z_eq record_z_def)
  from stored_record_round_trip
    [where a = alice and e = env_z and L = ledger_z and r = record_z and L' = ledger_done]
    v p loadEntry_ledger_z
  have 2: "valid (completed record_z) \<and>
           loadEntry ledger_done (JStr id_z) = Inr (Some (completed record_z))"
    by (simp add: i)
  from stored_record_round_trip
    [where r = record_z and
       ps = "[(''image'', JStr image_latin), (''densityMap'', JStr []), (''structure'', JStr []),
           (''timestamp'', JNum 1700000000), (''owner'', JStr ''0xA11CE''),
           (''status'', JStr ''processing'')]"]
    v g
  have 3: "\<exists>b. JSON_stringify (analysisData_of image_latin alice env_z) = Inr b \<and>
        decode (JStr id_z) b = Inr record_z"
    by (simp add: analysisData_z i)
  from 1 2 3 v g alice_env loadEntry_ledger_z p show ?thesis
    by (simp add: i)
qed

section \<open>The claims about the index\<close>

lemma count_list_reparsed:
  "count_list (map undefined_to_null (map json_norm keys)) (JStr i) = count_list keys (JStr i)"
  by (induction keys) (simp_all add: json_norm_string)

lemma reparsed_strings:
  "list_all isString keys \<Longrightarrow> map undefined_to_null (map json_norm keys) = keys"
proof (induction keys)
  case (Cons x xs)
  then show ?case by (cases x) simp_all
qed simp

text \<open>
  Claim C3 as stated fails. After Alice's upload the index holds her id once; registering
  the same id again leaves it there twice.
\<close>

theorem registerKey_twice_duplicates:
  "readKeys ledger_z = JArr [JStr id_z] \<and>
   map_sum id readKeys (registerKey ledger_z id_z True) = Inr (JArr [JStr id_z, JStr id_z])"
  by (simp add: registerKey_array [OF readKeys_ledger_z] readKeys_ledger_z readKeys_index)

text \<open>
  Claim C3, as amended. The registration of an id does not look for the id in the list:
  on an index that is a list (an absent or unparsable index entry reads as the empty
  list) it writes back the list followed by the id, whether or not the id was present, so
  that the id occurs once more than before. The list is written with \<^verbatim>\<open>JSON.stringify\<close>:
  a list of strings, which is what the front end writes, is read back as it was, and
  otherwise the elements are read back as \<open>json_norm\<close> gives them. No other entry of the
  ledger changes.
\<close>

theorem registerKey_appends:
  assumes "readKeys L = JArr keys"
  shows "\<exists>L'. registerKey L i True = Inr L' \<and>
              readKeys L' = JArr (map undefined_to_null (map json_norm keys) @ [JStr i]) \<and>
              (list_all isString keys \<longrightarrow> readKeys L' = JArr (keys @ [JStr i])) \<and>
              count_list (map undefined_to_null (map json_norm keys) @ [JStr i]) (JStr i) =
                Suc (count_list keys (JStr i)) \<and>
              (\<forall>key. key \<noteq> ''analysis_keys'' \<longrightarrow> getData L' key = getData L key)"
  by (simp add: registerKey_array [OF assms] readKeys_index getData_def count_list_reparsed
      reparsed_strings del: map_map)

theorem registerKey_appends_witness:
  "readKeys ledger_z = JArr [JStr id_z] \<and> list_all isString [JStr id_z] \<and>
   (\<exists>L'. registerKey ledger_z id_z True = Inr L' \<and>
         readKeys L' = JArr [JStr id_z, JStr id_z] \<and>
         count_list [JStr id_z, JStr id_z] (JStr id_z) = Suc (count_list [JStr id_z] (JStr id_z)) \<and>
         entryName id_z \<noteq> ''analysis_keys'' \<and>
         getData L' (entryName id_z) = getData ledger_z (entryName id_z))"
  using registerKey_appends [OF readKeys_ledger_z, of id_z] readKeys_ledger_z name_z_not_index
  by auto

section \<open>The claim about decoding\<close>

text \<open>
  Claim C5 as stated fails. The bytes \<^verbatim>\<open>{"status":"completed"}\<close>, which lack the owner,
  the timestamp and the image, decode to a record, with \<^verbatim>\<open>undefined\<close> in those fields.
  And a status that is present but is the empty string is replaced by
  \<^verbatim>\<open>"processing"\<close> as well.
\<close>

theorem decode_accepts_missing_fields:
  "decode (JStr id_z) (Utf8Json (JObj [(''status'', JStr ''completed'')])) =
     Inr \<lparr> id' = JStr id_z, encryptedImage = JUndefined, densityMap = JUndefined,
           molecularStructure = JUndefined, timestamp = JUndefined, owner = JUndefined,
           status = JStr ''completed'' \<rparr> \<and>
   decode (JStr id_z) (Utf8Json (JObj [(''image'', JStr ''FHE-eyJ9''), (''timestamp'', JNum 1700000000),
                                       (''owner'', JStr ''0xA11CE''), (''status'', JStr [])])) =
     Inr \<lparr> id' = JStr id_z, encryptedImage = JStr ''FHE-eyJ9'', densityMap = JUndefined,
           molecularStructure = JUndefined, timestamp = JNum 1700000000,
           owner = JStr ''0xA11CE'', status = JStr ''processing'' \<rparr>"
  by (simp add: decode_def or_js_def nullish_def)

text \<open>
  Claim C5, as amended. Decoding fails on exactly the bytes that do not parse (among them
  the empty bytes) and on the JSON text \<^verbatim>\<open>null\<close> (\<open>nullish\<close>; \<^verbatim>\<open>undefined\<close> is not the
  value of any JSON text). No field of a record is required: an
  object decodes to a record whose id is the key of the entry, whose image, timestamp and
  owner are the properties of these names, \<^verbatim>\<open>undefined\<close> where the property is missing,
  and whose status is \<^verbatim>\<open>"processing"\<close> whenever the property \<^verbatim>\<open>status\<close> is missing or
  falsy (\<^verbatim>\<open>null\<close>, \<^verbatim>\<open>false\<close>, \<^verbatim>\<open>0\<close>, the empty string).
\<close>

theorem decode_requires_no_field:
  "((\<exists>e. decode key b = Inl e) \<longleftrightarrow> (b = NoBytes \<or> b = Garbage \<or> (\<exists>v. b = Utf8Json v \<and> nullish v))) \<and>
   (\<exists>r. decode key (Utf8Json (JObj ps)) = Inr r \<and>
        id' r = key \<and>
        status r = (case map_of ps ''status'' of
                      None \<Rightarrow> JStr ''processing''
                    | Some s \<Rightarrow> if truthy s then s else JStr ''processing'') \<and>
        encryptedImage r = (case map_of ps ''image'' of None \<Rightarrow> JUndefined | Some v \<Rightarrow> v) \<and>
        timestamp r = (case map_of ps ''timestamp'' of None \<Rightarrow> JUndefined | Some v \<Rightarrow> v) \<and>
        owner r = (case map_of ps ''owner'' of None \<Rightarrow> JUndefined | Some v \<Rightarrow> v))"
proof -
  have "(\<exists>e. decode key b = Inl e) \<longleftrightarrow> (b = NoBytes \<or> b = Garbage \<or> (\<exists>v. b = Utf8Json v \<and> nullish v))"
    by (cases b) (auto simp: decode_def)
  moreover have "\<exists>r. decode key (Utf8Json (JObj ps)) = Inr r \<and>
        id' r = key \<and>
        status r = (case map_of ps ''status'' of
                      None \<Rightarrow> JStr ''processing''
                    | Some s \<Rightarrow> if truthy s then s else JStr ''processing'') \<and>
        encryptedImage r = (case map_of ps ''image'' of None \<Rightarrow> JUndefined | Some v \<Rightarrow> v) \<and>
        timestamp r = (case map_of ps ''timestamp'' of None \<Rightarrow> JUndefined | Some v \<Rightarrow> v) \<and>
        owner r = (case map_of ps ''owner'' of None \<Rightarrow> JUndefined | Some v \<Rightarrow> v)"
    by (simp add: decode_def or_js_def nullish_def split: option.splits)
  ultimately show ?thesis by blast
qed

section \<open>The claim about creation\<close>

lemma ledger_clash_eq:
  "uploadXrayImage bob env_z ledger_z =
     (Success, ledger_z(entryName id_z := Utf8Json (analysisData_of image_latin bob env_z),
                        ''analysis_keys'' := Utf8Json (JArr [JStr id_z, JStr id_z])))"
  using uploadXrayImage_array [OF bob_env(1,2) alice_env(2) readKeys_ledger_z] alice_env(4,5)
  by (simp add: id_z_eq)

text \<open>
  Claim C9 as stated fails, in two ways. The id is the clock reading and the random
  characters, and nothing compares it with the index: Bob's upload, in a call that reads
  the same millisecond and draws the same characters as Alice's did, gets the id of Alice's
  record, the index then lists that id twice and the entry holds Bob's record in place of
  Alice's. And not every payload is stored: with the image name \<^verbatim>\<open>U+86CB U+767D\<close> in the
  form, \<^verbatim>\<open>btoa\<close> throws at line 145, before any call of the contract, and nothing is
  written.
\<close>

theorem upload_id_not_fresh:
  "analysisId_of env_z = id_z \<and>
   readKeys ledger_z = JArr [JStr id_z] \<and>
   loadEntry ledger_z (JStr id_z) = Inr (Some (created image_latin alice env_z)) \<and>
   uploadXrayImage bob env_z ledger_z = (Success, ledger_clash) \<and>
   readKeys ledger_clash = JArr [JStr id_z, JStr id_z] \<and>
   loadEntry ledger_clash (JStr id_z) = Inr (Some (created image_latin bob env_z)) \<and>
   owner (created image_latin alice env_z) = JStr ''0xA11CE'' \<and>
   owner (created image_latin bob env_z) = JStr ''0xB0B'' \<and>
   uploadXrayImage alice_cjk env_z ledger_z = (Failure InvalidCharacterError, ledger_z)"
proof -
  have c: "ledger_clash =
             ledger_z(entryName id_z := Utf8Json (analysisData_of image_latin bob env_z),
                      ''analysis_keys'' := Utf8Json (JArr [JStr id_z, JStr id_z]))"
    by (simp add: ledger_clash_def ledger_clash_eq)
  have "getData ledger_clash (entryName (analysisId_of env_z)) =
          Utf8Json (analysisData_of image_latin bob env_z)"
    using name_z_not_index by (simp add: c getData_def id_z_eq)
  from loadEntry_created [OF this]
  have "loadEntry ledger_clash (JStr id_z) = Inr (Some (created image_latin bob env_z))"
    by (simp add: id_z_eq)
  moreover have "readKeys ledger_clash = JArr [JStr id_z, JStr id_z]"
    by (simp add: c readKeys_index)
  moreover have "uploadXrayImage bob env_z ledger_z = (Success, ledger_clash)"
    by (simp add: ledger_clash_def ledger_clash_eq)
  moreover have "owner (created image_latin alice env_z) = JStr ''0xA11CE''"
      "owner (created image_latin bob env_z) = JStr ''0xB0B''"
    by (simp_all add: created_def alice_def bob_def)
  moreover have "uploadXrayImage alice_cjk env_z ledger_z =
                   (Failure InvalidCharacterError, ledger_z)"
    by (rule uploadXrayImage_throws) (simp_all add: alice_cjk_def alice_def encrypted_cjk)
  ultimately show ?thesis
    using id_z_eq readKeys_ledger_z loadEntry_ledger_z by (simp add: record_z_def)
qed

text \<open>
  Claim C9, as amended. With a connected wallet, \<^verbatim>\<open>uploadXrayImage\<close> first encrypts the
  form (line 145); when \<^verbatim>\<open>btoa\<close> throws, which it does on a character above
  \<^verbatim>\<open>U+00FF\<close>, the call fails with that error and nothing is written. Otherwise, with a
  signer contract and an index that is a list, it builds the record with the id
  \<^verbatim>\<open>`${Date.now()}-${random}`\<close>, the encrypted form as image, status
  \<^verbatim>\<open>"processing"\<close>, empty density map and structure, the timestamp
  \<^verbatim>\<open>Math.floor(Date.now() / 1000)\<close> and the account as owner. It writes the record first,
  under the key \<^verbatim>\<open>analysis_\<close> followed by the id, and the index second: when the first
  transaction is rejected nothing is written; when the second is rejected the record is in
  the ledger and the index is as before; when both are accepted the record is in the
  ledger and the index is the old list, as \<^verbatim>\<open>JSON.stringify\<close> writes it, followed by the
  id. The id is not compared with the index: it is new in the index if it was not listed
  before, and then occurs once.
\<close>

theorem uploadXrayImage_record_then_index:
  assumes "provider a" and "readKeys L = JArr keys"
  shows "(\<forall>err. encryptedImage_of (newAnalysisData a) = Inl err \<longrightarrow>
            uploadXrayImage a e L = (Failure err, L)) \<and>
         ((\<exists>err. encryptedImage_of (newAnalysisData a) = Inl err) \<longleftrightarrow>
            list_ex (\<lambda>u. 255 < u) (form_json (newAnalysisData a))) \<and>
         (\<forall>c. encryptedImage_of (newAnalysisData a) = Inr c \<and> signerContract e \<longrightarrow>
            created c a e =
              \<lparr> id' = JStr (string_of_nat (clock_id e) @ ''-'' @ suffix e),
                encryptedImage = JStr c,
                densityMap = JStr [], molecularStructure = JStr [],
                timestamp = JNum (of_nat (clock_ts e div 1000)),
                owner = JStr (account a), status = JStr ''processing'' \<rparr> \<and>
            (\<exists>L1 L2.
               uploadXrayImage a e L =
                 (if \<not> accept1 e then (Failure LedgerError, L)
                  else if \<not> accept2 e then (Failure LedgerError, L1)
                  else (Success, L2)) \<and>
               getData L1 (''analysis_'' @ analysisId_of e) = Utf8Json (analysisData_of c a e) \<and>
               loadEntry L1 (JStr (analysisId_of e)) = Inr (Some (created c a e)) \<and>
               readKeys L1 = JArr keys \<and>
               getData L2 (''analysis_'' @ analysisId_of e) = Utf8Json (analysisData_of c a e) \<and>
               loadEntry L2 (JStr (analysisId_of e)) = Inr (Some (created c a e)) \<and>
               readKeys L2 =
                 JArr (map undefined_to_null (map json_norm keys) @ [JStr (analysisId_of e)]) \<and>
               (list_all isString keys \<longrightarrow>
                  readKeys L2 = JArr (keys @ [JStr (analysisId_of e)])))) \<and>
         (JStr (analysisId_of e) \<notin> set keys \<longrightarrow>
            count_list (map undefined_to_null (map json_norm keys) @ [JStr (analysisId_of e)])
              (JStr (analysisId_of e)) = 1)"
proof -
  have throws: "\<forall>err. encryptedImage_of (newAnalysisData a) = Inl err \<longrightarrow>
            uploadXrayImage a e L = (Failure err, L)"
    using uploadXrayImage_throws [OF assms(1)] by blast
  have iff: "(\<exists>err. encryptedImage_of (newAnalysisData a) = Inl err) \<longleftrightarrow>
            list_ex (\<lambda>u. 255 < u) (form_json (newAnalysisData a))"
    by (simp add: encryptedImage_of_def btoa_def)
  have stored: "created c a e =
              \<lparr> id' = JStr (string_of_nat (clock_id e) @ ''-'' @ suffix e),
                encryptedImage = JStr c,
                densityMap = JStr [], molecularStructure = JStr [],
                timestamp = JNum (of_nat (clock_ts e div 1000)),
                owner = JStr (account a), status = JStr ''processing'' \<rparr> \<and>
            (\<exists>L1 L2.
               uploadXrayImage a e L =
                 (if \<not> accept1 e then (Failure LedgerError, L)
                  else if \<not> accept2 e then (Failure LedgerError, L1)
                  else (Success, L2)) \<and>
               getData L1 (''analysis_'' @ analysisId_of e) = Utf8Json (analysisData_of c a e) \<and>
               loadEntry L1 (JStr (analysisId_of e)) = Inr (Some (created c a e)) \<and>
               readKeys L1 = JArr keys \<and>
               getData L2 (''analysis_'' @ analysisId_of e) = Utf8Json (analysisData_of c a e) \<and>
               loadEntry L2 (JStr (analysisId_of e)) = Inr (Some (created c a e)) \<and>
               readKeys L2 =
                 JArr (map undefined_to_null (map json_norm keys) @ [JStr (analysisId_of e)]) \<and>
               (list_all isString keys \<longrightarrow>
                  readKeys L2 = JArr (keys @ [JStr (analysisId_of e)])))"
    if c: "encryptedImage_of (newAnalysisData a) = Inr c" and s: "signerContract e" for c
  proof -
    let ?k = "entryName (analysisId_of e)"
    let ?L1 = "L(?k := Utf8Json (analysisData_of c a e))"
    let ?L2 = "?L1(''analysis_keys'' :=
                 Utf8Json (JArr (map undefined_to_null (map json_norm keys) @
                                 [JStr (analysisId_of e)])))"
    have k: "?k = ''analysis_'' @ analysisId_of e" by (simp add: entryName_def)
    have n: "?k \<noteq> ''analysis_keys''" by (rule entry_name_not_index)
    have g1: "getData ?L1 ?k = Utf8Json (analysisData_of c a e)" by (simp add: getData_def)
    have g2: "getData ?L2 ?k = Utf8Json (analysisData_of c a e)"
      using n by (simp add: getData_def)
    have "uploadXrayImage a e L =
                (if \<not> accept1 e then (Failure LedgerError, L)
                 else if \<not> accept2 e then (Failure LedgerError, ?L1)
                 else (Success, ?L2))"
      by (rule uploadXrayImage_array [OF assms(1) c s assms(2)])
    moreover have "readKeys ?L1 = JArr keys" using n assms(2) by (simp add: readKeys_other)
    moreover have r2: "readKeys ?L2 =
        JArr (map undefined_to_null (map json_norm keys) @ [JStr (analysisId_of e)])"
      by (rule readKeys_index)
    moreover have "list_all isString keys \<longrightarrow> readKeys ?L2 = JArr (keys @ [JStr (analysisId_of e)])"
      unfolding r2 by (simp add: reparsed_strings del: map_map)
    moreover have "getData ?L1 (''analysis_'' @ analysisId_of e) = Utf8Json (analysisData_of c a e)"
      using g1 by (simp only: k)
    moreover have "getData ?L2 (''analysis_'' @ analysisId_of e) = Utf8Json (analysisData_of c a e)"
      using g2 by (simp only: k)
    moreover note loadEntry_created [OF g1] loadEntry_created [OF g2]
    moreover have "created c a e =
              \<lparr> id' = JStr (string_of_nat (clock_id e) @ ''-'' @ suffix e),
                encryptedImage = JStr c,
                densityMap = JStr [], molecularStructure = JStr [],
                timestamp = JNum (of_nat (clock_ts e div 1000)),
                owner = JStr (account a), status = JStr ''processing'' \<rparr>"
      by (simp add: created_def analysisId_of_def)
    ultimately show ?thesis by blast
  qed
  have fresh: "JStr (analysisId_of e) \<notin> set keys \<longrightarrow>
            count_list (map undefined_to_null (map json_norm keys) @ [JStr (analysisId_of e)])
              (JStr (analysisId_of e)) = 1"
    by (simp add: count_list_reparsed count_list_0_iff del: map_map)
  from throws iff stored fresh show ?thesis by blast
qed







theorem uploadXrayImage_record_then_index_witness:
  "provider alice \<and> readKeys ledger_z = JArr [JStr id_z] \<and>
   encryptedImage_of (newAnalysisData alice) = Inr image_latin \<and> signerContract env_a \<and>
   list_all isString [JStr id_z] \<and> JStr id_a \<notin> set [JStr id_z] \<and>
   uploadXrayImage alice env_a ledger_z = (Success, ledger_za) \<and>
   loadEntry ledger_za (JStr id_a) = Inr (Some record_a) \<and>
   readKeys ledger_za = JArr [JStr id_z, JStr id_a] \<and>
   count_list [JStr id_z, JStr id_a] (JStr id_a) = 1 \<and>
   provider alice_cjk \<and>
   encryptedImage_of (newAnalysisData alice_cjk) = Inl InvalidCharacterError \<and>
   list_ex (\<lambda>u. 255 < u) (form_json (newAnalysisData alice_cjk)) \<and>
   uploadXrayImage alice_cjk env_a ledger_z = (Failure InvalidCharacterError, ledger_z)"
proof -
  have pc: "provider alice_cjk" by (simp add: alice_cjk_def alice_def)
  have ec: "encryptedImage_of (newAnalysisData alice_cjk) = Inl InvalidCharacterError"
    by (simp add: alice_cjk_def encrypted_cjk)
  note z = uploadXrayImage_record_then_index
    [where a = alice and L = ledger_z and keys = "[JStr id_z]" and e = env_a,
     OF alice_env(1) readKeys_ledger_z]
  from z have "\<exists>L1 L2.
       uploadXrayImage alice env_a ledger_z =
         (if \<not> accept1 env_a then (Failure LedgerError, ledger_z)
          else if \<not> accept2 env_a then (Failure LedgerError, L1)
          else (Success, L2)) \<and>
       loadEntry L2 (JStr (analysisId_of env_a)) = Inr (Some (created image_latin alice env_a)) \<and>
       (list_all isString [JStr id_z] \<longrightarrow>
          readKeys L2 = JArr ([JStr id_z] @ [JStr (analysisId_of env_a)]))"
    using alice_env(3,8) by blast
  then obtain L2 where "uploadXrayImage alice env_a ledger_z = (Success, L2)"
    and "loadEntry L2 (JStr id_a) = Inr (Some record_a)"
    and "readKeys L2 = JArr [JStr id_z, JStr id_a]"
    using alice_env(6,7) by (auto simp: id_a_eq record_a_def)
  then have 1: "uploadXrayImage alice env_a ledger_z = (Success, ledger_za) \<and>
     loadEntry ledger_za (JStr id_a) = Inr (Some record_a) \<and>
     readKeys ledger_za = JArr [JStr id_z, JStr id_a]"
    by (simp add: ledger_za_def)
  from z have 2: "count_list [JStr id_z, JStr id_a] (JStr id_a) = 1"
    by (simp add: id_a_eq id_a_def id_z_def)
  note c = uploadXrayImage_record_then_index
    [where a = alice_cjk and L = ledger_z and keys = "[JStr id_z]" and e = env_a,
     OF pc readKeys_ledger_z]
  from c ec have 3: "list_ex (\<lambda>u. 255 < u) (form_json (newAnalysisData alice_cjk)) \<and>
     uploadXrayImage alice_cjk env_a ledger_z = (Failure InvalidCharacterError, ledger_z)"
    by blast
  from 1 2 3 pc ec alice_env readKeys_ledger_z show ?thesis
    by (simp add: id_a_def id_z_def)
qed

section \<open>The claims about the listing\<close>










































end
